theory Spec2Isabelle
  imports Main "HOL-Library.Word"
begin

unbundle bit_operations_syntax

section \<open>Machine data\<close>

text \<open>
  The repository is one file, \<^verbatim>\<open>src/main.cpp\<close>, holding two demonstration programs: the
  property registry (\<^verbatim>\<open>PropertyTraits\<close>, \<^verbatim>\<open>PropertyHandler\<close>, \<^verbatim>\<open>PropertyStore\<close>, lines
  1-295) and a smaller one with descriptors only (\<^verbatim>\<open>ParameterTraits\<close>, lines 297-426).

  Bytes are \<open>8 word\<close>, \<^verbatim>\<open>int16_t\<close> is \<open>16 word\<close> read with \<open>sint\<close>, and a \<^verbatim>\<open>float\<close> is
  its IEEE 754 binary32 bit pattern, a \<open>32 word\<close>: bit 31 the sign, bits 30..23 the biased
  exponent, bits 22..0 the fraction.  An operation of the source whose behaviour C++
  leaves undefined (an index outside an array, a copy outside an object) has the
  outcome \<open>Undefined\<close>; the source contains no check and no assertion for these.
\<close>

type_synonym byte = "8 word"
type_synonym int16_t = "16 word"
type_synonym float = "32 word"

datatype 'a outcome = Defined 'a | Undefined

subsection \<open>binary32: decoding and comparison\<close>

definition float_sign :: "float \<Rightarrow> bool" where
  "float_sign f = (2 ^ 31 \<le> unat f)"

definition float_exponent :: "float \<Rightarrow> nat" where
  "float_exponent f = (unat f div 2 ^ 23) mod 256"

definition float_fraction :: "float \<Rightarrow> nat" where
  "float_fraction f = unat f mod 2 ^ 23"

definition isnan :: "float \<Rightarrow> bool" where
  "isnan f = (float_exponent f = 255 \<and> float_fraction f \<noteq> 0)"

definition isinf :: "float \<Rightarrow> bool" where
  "isinf f = (float_exponent f = 255 \<and> float_fraction f = 0)"

text \<open>
  Every finite binary32 value is an integer multiple of \<open>2\<^sup>-\<^sup>1\<^sup>4\<^sup>9\<close>; \<open>float_scaled f\<close> is
  that integer (the value of \<open>f\<close> times \<open>2\<^sup>1\<^sup>4\<^sup>9\<close>).  The same formula gives the two
  infinities \<open>\<plusminus>2\<^sup>2\<^sup>7\<^sup>7\<close>, beyond every finite value, so that the order of the integers is
  the IEEE order on everything but NaN; a comparison with a NaN is false.
\<close>

definition float_scaled :: "float \<Rightarrow> int" where
  "float_scaled f =
     (let m = (if float_exponent f = 0 then int (float_fraction f)
               else int (2 ^ 23 + float_fraction f) * 2 ^ (float_exponent f - 1))
      in if float_sign f then - m else m)"

definition float_le :: "float \<Rightarrow> float \<Rightarrow> bool" where
  "float_le a b = (\<not> isnan a \<and> \<not> isnan b \<and> float_scaled a \<le> float_scaled b)"

definition float_ge :: "float \<Rightarrow> float \<Rightarrow> bool" where
  "float_ge a b = float_le b a"

subsection \<open>binary32: rounding a decimal to the nearest float\<close>

fun bit_length :: "nat \<Rightarrow> nat" where
  "bit_length n = (if n = 0 then 0 else Suc (bit_length (n div 2)))"

declare bit_length.simps [simp del]

text \<open>\<open>ilog2_ratio n d\<close> is the integer \<open>e\<close> with \<open>2\<^sup>e \<le> n / d < 2\<^sup>e\<^sup>+\<^sup>1\<close>, for positive \<open>n\<close>, \<open>d\<close>.\<close>

definition ilog2_ratio :: "nat \<Rightarrow> nat \<Rightarrow> int" where
  "ilog2_ratio n d =
     (let k = int (bit_length n) - int (bit_length d)
      in if (if 0 \<le> k then d * 2 ^ nat k \<le> n else d \<le> n * 2 ^ nat (- k)) then k else k - 1)"

text \<open>\<open>n / d\<close> rounded to the nearest integer, a tie to the even one.\<close>

definition round_half_even :: "nat \<Rightarrow> nat \<Rightarrow> nat" where
  "round_half_even n d =
     (let q = n div d; r = n mod d
      in if 2 * r < d then q else if d < 2 * r then q + 1 else if even q then q else q + 1)"

text \<open>
  The float nearest to \<open>\<plusminus> n / d\<close> (round to nearest, ties to even, the default rounding
  mode): the significand is \<open>n / d\<close> in units of \<open>2\<^sup>e\<^sup>-\<^sup>2\<^sup>3\<close>, where \<open>e\<close> is the exponent of
  \<open>n / d\<close> but at least \<open>-126\<close> (subnormals); adding the significand to the shifted exponent
  field lets a significand that rounds up to \<open>2\<^sup>2\<^sup>4\<close> carry into the exponent.  A magnitude too
  large for binary32 gives infinity.
\<close>

definition float_of_ratio :: "bool \<Rightarrow> nat \<Rightarrow> nat \<Rightarrow> float" where
  "float_of_ratio s n d =
     (let sgn = (if s then 2 ^ 31 else 0) in
      if n = 0 then of_nat sgn
      else
        let e = max (ilog2_ratio n d) (- 126);
            m = (if e \<le> 23 then round_half_even (n * 2 ^ nat (23 - e)) d
                 else round_half_even n (d * 2 ^ nat (e - 23)));
            bits = nat (e + 126) * 2 ^ 23 + m
        in if 255 * 2 ^ 23 \<le> bits then of_nat (sgn + 255 * 2 ^ 23) else of_nat (sgn + bits))"

text \<open>The float nearest to \<open>\<plusminus> n \<times> 10\<^sup>e\<close>: a decimal literal or a decimal text.\<close>

definition float_of_decimal :: "bool \<Rightarrow> nat \<Rightarrow> int \<Rightarrow> float" where
  "float_of_decimal s n e =
     (if 0 \<le> e then float_of_ratio s (n * 10 ^ nat e) 1 else float_of_ratio s n (10 ^ nat (- e)))"

section \<open>The C library functions the descriptors call\<close>

text \<open>
  A C string (\<^verbatim>\<open>const char*\<close>) is a \<open>string option\<close>: \<open>None\<close> is the null pointer,
  \<open>Some s\<close> points to the characters \<open>s\<close> before the terminating NUL.  The library
  functions follow ISO C in the "C" locale, as the source links them.
\<close>

subsection \<open>Characters\<close>

definition isspace :: "char \<Rightarrow> bool" where
  "isspace c = (c = CHR '' '' \<or> (9 \<le> (of_char c :: nat) \<and> (of_char c :: nat) \<le> 13))"

definition isdigit :: "char \<Rightarrow> bool" where
  "isdigit c = (48 \<le> (of_char c :: nat) \<and> (of_char c :: nat) \<le> 57)"

definition isupper :: "char \<Rightarrow> bool" where
  "isupper c = (65 \<le> (of_char c :: nat) \<and> (of_char c :: nat) \<le> 90)"

definition tolower :: "char \<Rightarrow> char" where
  "tolower c = (if isupper c then ''abcdefghijklmnopqrstuvwxyz'' ! (of_char c - 65) else c)"

definition isxdigit :: "char \<Rightarrow> bool" where
  "isxdigit c = (isdigit c \<or> (97 \<le> (of_char (tolower c) :: nat) \<and> (of_char (tolower c) :: nat) \<le> 102))"

definition isalnum :: "char \<Rightarrow> bool" where
  "isalnum c = (isdigit c \<or> (97 \<le> (of_char (tolower c) :: nat) \<and> (of_char (tolower c) :: nat) \<le> 122))"

definition digit_value :: "char \<Rightarrow> nat" where
  "digit_value c = (if isdigit c then of_char c - 48 else of_char (tolower c) - 87)"

definition digit_char :: "nat \<Rightarrow> char" where
  "digit_char n = ''0123456789'' ! n"

text \<open>The number a digit sequence denotes in base \<open>b\<close>.\<close>

definition number_of :: "nat \<Rightarrow> string \<Rightarrow> nat" where
  "number_of b ds = foldl (\<lambda>a c. b * a + digit_value c) 0 ds"

text \<open>An optional sign: whether it is a minus, and how many characters it takes.\<close>

definition scan_sign :: "string \<Rightarrow> bool \<times> nat" where
  "scan_sign s =
     (case s of
        [] \<Rightarrow> (False, 0)
      | c # _ \<Rightarrow> if c = CHR ''-'' then (True, 1) else if c = CHR ''+'' then (False, 1) else (False, 0))"

subsection \<open>\<^verbatim>\<open>strtol(in, &end, 10)\<close>\<close>

text \<open>
  The result is the value and the number of characters consumed, \<^verbatim>\<open>end - in\<close>; no digits
  means no conversion, \<^verbatim>\<open>end == in\<close>.  A value outside \<^verbatim>\<open>long\<close> is clamped to \<^verbatim>\<open>LONG_MIN\<close> or
  \<^verbatim>\<open>LONG_MAX\<close>; \<^verbatim>\<open>long\<close> has 64 bits (LP64).
\<close>

definition LONG_MAX :: int where
  "LONG_MAX = 2 ^ 63 - 1"

definition LONG_MIN :: int where
  "LONG_MIN = - (2 ^ 63)"

definition strtol :: "string \<Rightarrow> int \<times> nat" where
  "strtol s =
     (let ws = length (takeWhile isspace s);
          (neg, k) = scan_sign (drop ws s);
          ds = takeWhile isdigit (drop (ws + k) s)
      in if ds = [] then (0, 0)
         else (max LONG_MIN (min LONG_MAX ((if neg then - 1 else 1) * int (number_of 10 ds))),
               ws + k + length ds))"

subsection \<open>\<^verbatim>\<open>strtof(in, &end)\<close>\<close>

text \<open>
  The subject sequence is optional white space, an optional sign, and then a decimal
  number (digits with an optional point, an optional exponent), a hexadecimal one
  (\<^verbatim>\<open>0x\<close>, binary exponent after \<^verbatim>\<open>p\<close>), \<^verbatim>\<open>inf\<close>/\<^verbatim>\<open>infinity\<close>, or \<^verbatim>\<open>nan\<close> with an optional
  parenthesised tag, letters in either case.  The value is rounded to the nearest float.
\<close>

definition has_prefix_ci :: "string \<Rightarrow> string \<Rightarrow> bool" where
  "has_prefix_ci p s = (map tolower (take (length p) s) = p)"

text \<open>Digits, an optional point, digits: the two digit runs and the characters consumed
  (none when there is no digit at all).\<close>

definition scan_mantissa :: "(char \<Rightarrow> bool) \<Rightarrow> string \<Rightarrow> string \<times> string \<times> nat" where
  "scan_mantissa isd s =
     (let ip = takeWhile isd s;
          r = drop (length ip) s;
          dot = (case r of [] \<Rightarrow> 0 | c # _ \<Rightarrow> if c = CHR ''.'' then 1 else 0);
          fp = (if dot = 1 then takeWhile isd (drop 1 r) else [])
      in if ip = [] \<and> fp = [] then ([], [], 0) else (ip, fp, length ip + dot + length fp))"

text \<open>An exponent part after the marker \<open>m\<close> (\<^verbatim>\<open>e\<close> or \<^verbatim>\<open>p\<close>): its value and the characters
  consumed; it is taken only when at least one digit follows.\<close>

definition scan_exponent :: "char \<Rightarrow> string \<Rightarrow> int \<times> nat" where
  "scan_exponent m s =
     (case s of
        [] \<Rightarrow> (0, 0)
      | c # r \<Rightarrow>
          if tolower c \<noteq> m then (0, 0)
          else
            let (neg, k) = scan_sign r;
                ds = takeWhile isdigit (drop k r)
            in if ds = [] then (0, 0)
               else ((if neg then - 1 else 1) * int (number_of 10 ds), 1 + k + length ds))"

text \<open>The tag of a NaN, \<^verbatim>\<open>(n-char-sequence)\<close>: the characters it takes, none if malformed.\<close>

definition scan_nan_tag :: "string \<Rightarrow> nat" where
  "scan_nan_tag s =
     (case s of
        [] \<Rightarrow> 0
      | c # r \<Rightarrow>
          if c \<noteq> CHR ''(''  then 0
          else
            let tag = takeWhile (\<lambda>x. isalnum x \<or> x = CHR ''_'') r
            in (case drop (length tag) r of
                  [] \<Rightarrow> 0
                | d # _ \<Rightarrow> if d = CHR '')'' then length tag + 2 else 0))"

definition float_inf :: "bool \<Rightarrow> float" where
  "float_inf neg = (if neg then 0xFF800000 else 0x7F800000)"

definition float_nan :: "bool \<Rightarrow> float" where
  "float_nan neg = (if neg then 0xFFC00000 else 0x7FC00000)"

definition float_of_binary :: "bool \<Rightarrow> nat \<Rightarrow> int \<Rightarrow> float" where
  "float_of_binary s n e =
     (if 0 \<le> e then float_of_ratio s (n * 2 ^ nat e) 1 else float_of_ratio s n (2 ^ nat (- e)))"

definition strtof :: "string \<Rightarrow> float \<times> nat" where
  "strtof s =
     (let ws = length (takeWhile isspace s);
          (neg, k) = scan_sign (drop ws s);
          r = drop (ws + k) s;
          (xi, xf, xk) = scan_mantissa isxdigit (drop 2 r);
          (di, df, dk) = scan_mantissa isdigit r
      in if has_prefix_ci ''infinity'' r then (float_inf neg, ws + k + 8)
         else if has_prefix_ci ''inf'' r then (float_inf neg, ws + k + 3)
         else if has_prefix_ci ''nan'' r then (float_nan neg, ws + k + 3 + scan_nan_tag (drop 3 r))
         else if has_prefix_ci ''0x'' r \<and> xk \<noteq> 0 then
           (let (e, ek) = scan_exponent (CHR ''p'') (drop (2 + xk) r)
            in (float_of_binary neg (number_of 16 (xi @ xf)) (e - 4 * int (length xf)),
                ws + k + 2 + xk + ek))
         else if dk \<noteq> 0 then
           (let (e, ek) = scan_exponent (CHR ''e'') (drop dk r)
            in (float_of_decimal neg (number_of 10 (di @ df)) (e - int (length df)),
                ws + k + dk + ek))
         else (0, 0))"

subsection \<open>\<^verbatim>\<open>snprintf(out, n, fmt, x)\<close>\<close>

text \<open>
  A destination \<^verbatim>\<open>char*\<close> is modelled by the text it holds.  \<^verbatim>\<open>snprintf\<close> returns the length
  of the whole formatted text and stores at most \<open>n - 1\<close> of its characters (and a NUL);
  with \<open>n = 0\<close> it stores nothing.
\<close>

fun show_nat :: "nat \<Rightarrow> string" where
  "show_nat n = (if n < 10 then [digit_char n] else show_nat (n div 10) @ [digit_char (n mod 10)])"

declare show_nat.simps [simp del]

text \<open>\<^verbatim>\<open>%d\<close>: a minus sign if negative, then the decimal digits.\<close>

definition format_d :: "int \<Rightarrow> string" where
  "format_d i = (if i < 0 then CHR ''-'' # show_nat (nat (- i)) else show_nat (nat i))"

text \<open>\<^verbatim>\<open>%.2f\<close>: the exact value rounded to two decimals (to nearest, ties to even); the
  argument is the float converted to \<^verbatim>\<open>double\<close>, which keeps its value.\<close>

definition format_2f :: "float \<Rightarrow> string" where
  "format_2f f =
     (let sg = (if float_sign f then [CHR ''-''] else []) in
      if isnan f then sg @ ''nan''
      else if isinf f then sg @ ''inf''
      else
        let r = round_half_even (nat \<bar>float_scaled f\<bar> * 100) (2 ^ 149)
        in sg @ show_nat (r div 100) @ [CHR ''.'', digit_char (r mod 100 div 10), digit_char (r mod 10)])"

definition snprintf :: "string \<Rightarrow> nat \<Rightarrow> string \<Rightarrow> int \<times> string" where
  "snprintf out n text = (int (length text), if n = 0 then out else take (n - 1) text)"

section \<open>The property registry (\<^verbatim>\<open>main.cpp\<close>, lines 1-295)\<close>

subsection \<open>Identifiers and value types\<close>

text \<open>
  \<^verbatim>\<open>enum class PropertyID : uint16_t\<close> has the underlying type \<^verbatim>\<open>uint16_t\<close>: every 16-bit
  value is a value of the enumeration (\<^verbatim>\<open>static_cast<PropertyID>(2)\<close> is well defined), and
  the two enumerators are 0 and 1.
\<close>

type_synonym PropertyID = "16 word"

definition PropertyID_TemperatureSetpoint :: PropertyID where
  "PropertyID_TemperatureSetpoint = 0"

definition PropertyID_DeviceVoltage :: PropertyID where
  "PropertyID_DeviceVoltage = 1"

definition PropertyID_enumerators :: "PropertyID list" where
  "PropertyID_enumerators = [PropertyID_TemperatureSetpoint, PropertyID_DeviceVoltage]"

datatype TemperatureSetpoint = TemperatureSetpoint (TemperatureSetpoint_value: float)

datatype DeviceVoltage = DeviceVoltage (DeviceVoltage_value: int16_t)

datatype StorageKind = Volatile

text \<open>
  The object representation of a value type: \<^verbatim>\<open>sizeof(T)\<close>, the bytes of a value, and the
  value read from the start of a buffer (\<^verbatim>\<open>*static_cast<const T*>(p)\<close>).  Scalars are stored
  little-endian, least significant byte first.
\<close>

record 'a object_rep =
  sizeof :: nat
  to_bytes :: "'a \<Rightarrow> byte list"
  from_bytes :: "byte list \<Rightarrow> 'a"

definition le_bytes :: "nat \<Rightarrow> 'w::len word \<Rightarrow> byte list" where
  "le_bytes n w = map (\<lambda>i. ucast (drop_bit (8 * i) w)) [0..<n]"

definition le_word :: "byte list \<Rightarrow> 'w::len word" where
  "le_word bs = foldr (\<lambda>b w. ucast b OR push_bit 8 w) bs 0"

definition rep_TemperatureSetpoint :: "TemperatureSetpoint object_rep" where
  "rep_TemperatureSetpoint =
     \<lparr> sizeof = 4,
       to_bytes = (\<lambda>t. le_bytes 4 (TemperatureSetpoint_value t)),
       from_bytes = (\<lambda>bs. TemperatureSetpoint (le_word (take 4 bs))) \<rparr>"

definition rep_DeviceVoltage :: "DeviceVoltage object_rep" where
  "rep_DeviceVoltage =
     \<lparr> sizeof = 2,
       to_bytes = (\<lambda>p. le_bytes 2 (DeviceVoltage_value p)),
       from_bytes = (\<lambda>bs. DeviceVoltage (le_word (take 2 bs))) \<rparr>"

subsection \<open>\<^verbatim>\<open>PropertyTraits<T>\<close>\<close>

text \<open>
  A specialisation of \<^verbatim>\<open>PropertyTraits\<close> is a record of its static members.  \<^verbatim>\<open>parse\<close> takes
  the text and the object \<^verbatim>\<open>out\<close> refers to, and returns its result with the object
  afterwards; \<^verbatim>\<open>serialize\<close> takes the value, the text in the destination and its capacity
  \<open>n\<close>, and returns \<^verbatim>\<open>snprintf\<close>'s result with the destination afterwards.
\<close>

record 'a PropertyTraits =
  traits_name :: string
  traits_key :: string
  traits_storage :: StorageKind
  traits_default_v :: 'a
  traits_validate :: "'a \<Rightarrow> bool"
  traits_parse :: "string option \<Rightarrow> 'a \<Rightarrow> bool \<times> 'a"
  traits_serialize :: "'a \<Rightarrow> string \<Rightarrow> nat \<Rightarrow> int \<times> string"

text \<open>
  A float literal is the float nearest to its decimal: \<^verbatim>\<open>150.0f\<close> is
  \<open>float_of_decimal False 1500 (- 1)\<close>, and \<^verbatim>\<open>-50.0f\<close>, the negation of \<^verbatim>\<open>50.0f\<close>, is the
  same float with the sign bit set, \<open>float_of_decimal True 500 (- 1)\<close>.
\<close>

definition PropertyTraits_TemperatureSetpoint_validate :: "TemperatureSetpoint \<Rightarrow> bool" where
  "PropertyTraits_TemperatureSetpoint_validate t =
     (float_ge (TemperatureSetpoint_value t) (float_of_decimal True 500 (- 1)) \<and>
      float_le (TemperatureSetpoint_value t) (float_of_decimal False 1500 (- 1)))"

definition PropertyTraits_TemperatureSetpoint_parse ::
    "string option \<Rightarrow> TemperatureSetpoint \<Rightarrow> bool \<times> TemperatureSetpoint" where
  "PropertyTraits_TemperatureSetpoint_parse inp out =
     (case inp of
        None \<Rightarrow> (False, out)
      | Some s \<Rightarrow>
          let (v, endp) = strtof s
          in if endp = 0 then (False, out) else (True, TemperatureSetpoint v))"

definition PropertyTraits_TemperatureSetpoint_serialize ::
    "TemperatureSetpoint \<Rightarrow> string \<Rightarrow> nat \<Rightarrow> int \<times> string" where
  "PropertyTraits_TemperatureSetpoint_serialize x out n =
     snprintf out n (format_2f (TemperatureSetpoint_value x))"

definition PropertyTraits_TemperatureSetpoint :: "TemperatureSetpoint PropertyTraits" where
  "PropertyTraits_TemperatureSetpoint =
     \<lparr> traits_name = ''TemperatureSetpoint'',
       traits_key = ''temperature'',
       traits_storage = Volatile,
       traits_default_v = TemperatureSetpoint (float_of_decimal False 230 (- 1)),
       traits_validate = PropertyTraits_TemperatureSetpoint_validate,
       traits_parse = PropertyTraits_TemperatureSetpoint_parse,
       traits_serialize = PropertyTraits_TemperatureSetpoint_serialize \<rparr>"

text \<open>\<^verbatim>\<open>p.value > 0 && p.value < 20000\<close> compares after promotion to \<^verbatim>\<open>int\<close>.\<close>

definition PropertyTraits_DeviceVoltage_validate :: "DeviceVoltage \<Rightarrow> bool" where
  "PropertyTraits_DeviceVoltage_validate p =
     (0 < sint (DeviceVoltage_value p) \<and> sint (DeviceVoltage_value p) < 20000)"

text \<open>\<^verbatim>\<open>static_cast<int16_t>(v)\<close> keeps the low 16 bits of the \<^verbatim>\<open>long\<close>.\<close>

definition PropertyTraits_DeviceVoltage_parse ::
    "string option \<Rightarrow> DeviceVoltage \<Rightarrow> bool \<times> DeviceVoltage" where
  "PropertyTraits_DeviceVoltage_parse inp out =
     (case inp of
        None \<Rightarrow> (False, out)
      | Some s \<Rightarrow>
          let (v, endp) = strtol s
          in if endp = 0 then (False, out) else (True, DeviceVoltage (word_of_int v)))"

definition PropertyTraits_DeviceVoltage_serialize ::
    "DeviceVoltage \<Rightarrow> string \<Rightarrow> nat \<Rightarrow> int \<times> string" where
  "PropertyTraits_DeviceVoltage_serialize x out n =
     snprintf out n (format_d (sint (DeviceVoltage_value x)))"

definition PropertyTraits_DeviceVoltage :: "DeviceVoltage PropertyTraits" where
  "PropertyTraits_DeviceVoltage =
     \<lparr> traits_name = ''DeviceVoltage'',
       traits_key = ''pressure'',
       traits_storage = Volatile,
       traits_default_v = DeviceVoltage 1013,
       traits_validate = PropertyTraits_DeviceVoltage_validate,
       traits_parse = PropertyTraits_DeviceVoltage_parse,
       traits_serialize = PropertyTraits_DeviceVoltage_serialize \<rparr>"

subsection \<open>The handler table\<close>

text \<open>
  The three operations of a handler work on raw bytes.  \<^verbatim>\<open>parse\<close> and \<^verbatim>\<open>serialize\<close> are
  function pointers that may be null (\<open>None\<close>); \<^verbatim>\<open>makeHandler\<close> always fills them with a
  lambda, whose test of the address of the static member function is always true.
\<close>

record PropertyHandler =
  name :: string
  key :: string
  size_of :: nat
  storage :: StorageKind
  parse :: "(string option \<Rightarrow> byte list \<Rightarrow> bool \<times> byte list) option"
  serialize :: "(byte list \<Rightarrow> string \<Rightarrow> nat \<Rightarrow> int \<times> string) option"
  validate :: "byte list \<Rightarrow> bool"

definition makeHandler :: "'a PropertyTraits \<Rightarrow> 'a object_rep \<Rightarrow> PropertyHandler" where
  "makeHandler T R =
     \<lparr> name = traits_name T,
       key = traits_key T,
       size_of = sizeof R,
       storage = traits_storage T,
       parse = Some (\<lambda>inp out.
                 let (ok, v) = traits_parse T inp (from_bytes R out)
                 in (ok, to_bytes R v @ drop (sizeof R) out)),
       serialize = Some (\<lambda>inp out n. traits_serialize T (from_bytes R inp) out n),
       validate = (\<lambda>inp. traits_validate T (from_bytes R inp)) \<rparr>"

definition kPropertyTable :: "PropertyHandler list" where
  "kPropertyTable =
     [makeHandler PropertyTraits_TemperatureSetpoint rep_TemperatureSetpoint,
      makeHandler PropertyTraits_DeviceVoltage rep_DeviceVoltage]"

definition kPropertyCount :: nat where
  "kPropertyCount = length kPropertyTable"

function compute_max_size_loop :: "nat \<Rightarrow> nat \<Rightarrow> nat" where
  "compute_max_size_loop i m =
     (if i < kPropertyCount
      then compute_max_size_loop (i + 1)
             (if m < size_of (kPropertyTable ! i) then size_of (kPropertyTable ! i) else m)
      else m)"
  by pat_completeness auto
termination
  by (relation "measure (\<lambda>(i, m). kPropertyCount - i)") auto

declare compute_max_size_loop.simps [simp del]

definition compute_max_size :: nat where
  "compute_max_size = compute_max_size_loop 0 0"

definition kMaxPropertySize :: nat where
  "kMaxPropertySize = compute_max_size"

subsection \<open>\<^verbatim>\<open>PropertyStore\<close>\<close>

record Slot =
  buf :: "byte list"
  sz :: nat
  has_value :: bool

record PropertyStore =
  slots :: "Slot list"

text \<open>\<^verbatim>\<open>PropertyStore store{}\<close>: every slot zeroed, empty.\<close>

definition PropertyStore_init :: PropertyStore where
  "PropertyStore_init =
     \<lparr> slots = replicate kPropertyCount
                 \<lparr> buf = replicate kMaxPropertySize 0, sz = 0, has_value = False \<rparr> \<rparr>"

text \<open>
  \<^verbatim>\<open>std::array<Slot, kPropertyCount>\<close> and \<^verbatim>\<open>std::array<std::uint8_t, kMaxPropertySize>\<close> fix
  the two lengths, which a list does not: a store of the program satisfies \<open>store_ok\<close>.
\<close>

definition store_ok :: "PropertyStore \<Rightarrow> bool" where
  "store_ok st =
     (length (slots st) = kPropertyCount \<and>
      list_all (\<lambda>s. length (buf s) = kMaxPropertySize) (slots st))"

text \<open>Indexing an array, and \<^verbatim>\<open>memcpy(dst, src, n)\<close>: outside the object, undefined.\<close>

definition array_at :: "'a list \<Rightarrow> nat \<Rightarrow> 'a outcome" where
  "array_at xs i = (if i < length xs then Defined (xs ! i) else Undefined)"

definition memcpy :: "byte list \<Rightarrow> byte list \<Rightarrow> nat \<Rightarrow> byte list outcome" where
  "memcpy dst src n =
     (if n \<le> length src \<and> n \<le> length dst then Defined (take n src @ drop n dst) else Undefined)"

definition handler :: "PropertyID \<Rightarrow> PropertyHandler outcome" where
  "handler pid = array_at kPropertyTable (unat pid)"

definition setRaw ::
    "PropertyStore \<Rightarrow> PropertyID \<Rightarrow> byte list \<Rightarrow> nat \<Rightarrow> (bool \<times> PropertyStore) outcome" where
  "setRaw st pid data len =
     (case handler pid of
        Undefined \<Rightarrow> Undefined
      | Defined h \<Rightarrow>
          if len \<noteq> size_of h then Defined (False, st)
          else
            (case memcpy (replicate kMaxPropertySize 0) data len of
               Undefined \<Rightarrow> Undefined
             | Defined tmp \<Rightarrow>
                 if \<not> validate h tmp then Defined (False, st)
                 else
                   (case array_at (slots st) (unat pid) of
                      Undefined \<Rightarrow> Undefined
                    | Defined s \<Rightarrow>
                        (case memcpy (buf s) data len of
                           Undefined \<Rightarrow> Undefined
                         | Defined b \<Rightarrow>
                             Defined (True,
                               st\<lparr>slots := (slots st)
                                    [unat pid := s\<lparr>buf := b, sz := len, has_value := True\<rparr>]\<rparr>)))))"

definition getRaw ::
    "PropertyStore \<Rightarrow> PropertyID \<Rightarrow> byte list \<Rightarrow> nat \<Rightarrow> (bool \<times> byte list) outcome" where
  "getRaw st pid out len =
     (case array_at (slots st) (unat pid) of
        Undefined \<Rightarrow> Undefined
      | Defined s \<Rightarrow>
          if \<not> has_value s \<or> sz s \<noteq> len then Defined (False, out)
          else
            (case memcpy out (buf s) len of
               Undefined \<Rightarrow> Undefined
             | Defined out' \<Rightarrow> Defined (True, out')))"

text \<open>
  The templates \<^verbatim>\<open>set<T>\<close> and \<^verbatim>\<open>get<T>\<close> take the object representation of \<^verbatim>\<open>T\<close>; the
  caller chooses \<^verbatim>\<open>T\<close>, and nothing ties it to the identifier but its size.
\<close>

definition PropertyStore_set ::
    "'a object_rep \<Rightarrow> PropertyStore \<Rightarrow> PropertyID \<Rightarrow> 'a \<Rightarrow> (bool \<times> PropertyStore) outcome" where
  "PropertyStore_set R st pid v = setRaw st pid (to_bytes R v) (sizeof R)"

definition PropertyStore_get ::
    "'a object_rep \<Rightarrow> PropertyStore \<Rightarrow> PropertyID \<Rightarrow> 'a \<Rightarrow> (bool \<times> 'a) outcome" where
  "PropertyStore_get R st pid out =
     (case getRaw st pid (to_bytes R out) (sizeof R) of
        Undefined \<Rightarrow> Undefined
      | Defined (ok, bs) \<Rightarrow> Defined (ok, from_bytes R bs))"

definition setFromText ::
    "PropertyStore \<Rightarrow> PropertyID \<Rightarrow> string option \<Rightarrow> (bool \<times> PropertyStore) outcome" where
  "setFromText st pid text =
     (case handler pid of
        Undefined \<Rightarrow> Undefined
      | Defined h \<Rightarrow>
          (case parse h of
             None \<Rightarrow> Defined (False, st)
           | Some parse_fn \<Rightarrow>
               let (ok, tmp) = parse_fn text (replicate kMaxPropertySize 0)
               in if \<not> ok then Defined (False, st)
                  else if \<not> validate h tmp then Defined (False, st)
                  else
                    (case array_at (slots st) (unat pid) of
                       Undefined \<Rightarrow> Undefined
                     | Defined s \<Rightarrow>
                         (case memcpy (buf s) tmp (size_of h) of
                            Undefined \<Rightarrow> Undefined
                          | Defined b \<Rightarrow>
                              Defined (True,
                                st\<lparr>slots := (slots st)
                                     [unat pid := s\<lparr>buf := b, sz := size_of h, has_value := True\<rparr>]\<rparr>)))))"

definition getAsText ::
    "PropertyStore \<Rightarrow> PropertyID \<Rightarrow> string \<Rightarrow> nat \<Rightarrow> (int \<times> string) outcome" where
  "getAsText st pid out n =
     (case handler pid of
        Undefined \<Rightarrow> Undefined
      | Defined h \<Rightarrow>
          (case array_at (slots st) (unat pid) of
             Undefined \<Rightarrow> Undefined
           | Defined s \<Rightarrow>
               (case serialize h of
                  None \<Rightarrow> Defined (- 1, out)
                | Some serialize_fn \<Rightarrow>
                    if \<not> has_value s then Defined (- 1, out)
                    else Defined (serialize_fn (buf s) out n))))"

text \<open>
  The stores in which the slot of \<open>pid\<close> has never been successfully written: the
  initial store, and any store reached from one of them by a set operation on another
  identifier or by a set operation that returned false (\<^verbatim>\<open>set<T>\<close> is \<^verbatim>\<open>setRaw\<close>).
\<close>

inductive never_written :: "PropertyID \<Rightarrow> PropertyStore \<Rightarrow> bool" for pid :: PropertyID where
  never_written_init: "never_written pid PropertyStore_init"
| never_written_setRaw:
    "never_written pid st \<Longrightarrow> setRaw st q data len = Defined (ok, st') \<Longrightarrow> q \<noteq> pid \<or> \<not> ok
     \<Longrightarrow> never_written pid st'"
| never_written_setFromText:
    "never_written pid st \<Longrightarrow> setFromText st q inp = Defined (ok, st') \<Longrightarrow> q \<noteq> pid \<or> \<not> ok
     \<Longrightarrow> never_written pid st'"

section \<open>The descriptors of the second program (\<^verbatim>\<open>main.cpp\<close>, lines 297-426)\<close>

text \<open>
  \<^verbatim>\<open>ParameterTraits<T>::parse\<close> stores the parsed number in \<^verbatim>\<open>out\<close> and then returns
  \<^verbatim>\<open>validate(out)\<close>: the object is written also when the result is false.
\<close>

datatype HighTemperatureAlarm = HighTemperatureAlarm (HighTemperatureAlarm_threshold: float)

definition ParameterTraits_TemperatureSetpoint_default_v :: TemperatureSetpoint where
  "ParameterTraits_TemperatureSetpoint_default_v = TemperatureSetpoint (float_of_decimal False 375 (- 1))"

definition ParameterTraits_TemperatureSetpoint_validate :: "TemperatureSetpoint \<Rightarrow> bool" where
  "ParameterTraits_TemperatureSetpoint_validate x =
     (float_ge (TemperatureSetpoint_value x) (float_of_decimal False 0 (- 1)) \<and>
      float_le (TemperatureSetpoint_value x) (float_of_decimal False 1000 (- 1)))"

definition ParameterTraits_TemperatureSetpoint_parse ::
    "string option \<Rightarrow> TemperatureSetpoint \<Rightarrow> bool \<times> TemperatureSetpoint" where
  "ParameterTraits_TemperatureSetpoint_parse inp out =
     (case inp of
        None \<Rightarrow> (False, out)
      | Some s \<Rightarrow>
          let (v, endp) = strtof s
          in if endp = 0 then (False, out)
             else (ParameterTraits_TemperatureSetpoint_validate (TemperatureSetpoint v),
                   TemperatureSetpoint v))"

definition ParameterTraits_TemperatureSetpoint_serialize ::
    "TemperatureSetpoint \<Rightarrow> string \<Rightarrow> nat \<Rightarrow> int \<times> string" where
  "ParameterTraits_TemperatureSetpoint_serialize x out n =
     snprintf out n (format_2f (TemperatureSetpoint_value x))"

definition ParameterTraits_HighTemperatureAlarm_default_v :: HighTemperatureAlarm where
  "ParameterTraits_HighTemperatureAlarm_default_v = HighTemperatureAlarm (float_of_decimal False 800 (- 1))"

definition ParameterTraits_HighTemperatureAlarm_validate :: "HighTemperatureAlarm \<Rightarrow> bool" where
  "ParameterTraits_HighTemperatureAlarm_validate x =
     (float_ge (HighTemperatureAlarm_threshold x) (float_of_decimal False 0 (- 1)) \<and>
      float_le (HighTemperatureAlarm_threshold x) (float_of_decimal False 1500 (- 1)))"

definition ParameterTraits_HighTemperatureAlarm_parse ::
    "string option \<Rightarrow> HighTemperatureAlarm \<Rightarrow> bool \<times> HighTemperatureAlarm" where
  "ParameterTraits_HighTemperatureAlarm_parse inp out =
     (case inp of
        None \<Rightarrow> (False, out)
      | Some s \<Rightarrow>
          let (v, endp) = strtof s
          in if endp = 0 then (False, out)
             else (ParameterTraits_HighTemperatureAlarm_validate (HighTemperatureAlarm v),
                   HighTemperatureAlarm v))"

definition ParameterTraits_HighTemperatureAlarm_serialize ::
    "HighTemperatureAlarm \<Rightarrow> string \<Rightarrow> nat \<Rightarrow> int \<times> string" where
  "ParameterTraits_HighTemperatureAlarm_serialize x out n =
     snprintf out n (format_2f (HighTemperatureAlarm_threshold x))"

section \<open>Facts about the model\<close>

subsection \<open>Evaluation\<close>

text \<open>The equations that evaluate the float and text functions on concrete arguments.\<close>

lemmas float_eval =
  float_sign_def float_exponent_def float_fraction_def isnan_def isinf_def float_scaled_def
  float_le_def float_ge_def ilog2_ratio_def round_half_even_def float_of_ratio_def
  float_of_decimal_def bit_length.simps Let_def

lemmas text_eval =
  isspace_def isdigit_def isupper_def tolower_def isxdigit_def isalnum_def digit_value_def
  digit_char_def number_of_def scan_sign_def LONG_MAX_def LONG_MIN_def strtol_def
  has_prefix_ci_def scan_mantissa_def scan_exponent_def scan_nan_tag_def float_inf_def
  float_nan_def float_of_binary_def strtof_def show_nat.simps format_d_def format_2f_def
  snprintf_def

lemmas float_order_eval =
  float_sign_def float_exponent_def float_fraction_def isnan_def isinf_def float_scaled_def
  float_le_def float_ge_def Let_def

text \<open>The float literals of the source; \<^verbatim>\<open>-50.0f\<close> is \<^verbatim>\<open>50.0f\<close> with the sign bit set.\<close>

lemma float_literals:
  "float_of_decimal True 500 (- 1) = 0xC2480000"
  "float_of_decimal False 1500 (- 1) = 0x43160000"
  "float_of_decimal False 230 (- 1) = 0x41B80000"
  "float_of_decimal False 0 (- 1) = 0"
  "float_of_decimal False 1000 (- 1) = 0x42C80000"
  "float_of_decimal False 800 (- 1) = 0x42A00000"
  "float_of_decimal False 375 (- 1) = 0x42160000"
  "float_of_decimal True 12340 (- 1) = 0xC49A4000"
  by (simp_all add: float_eval)

text \<open>The texts and numbers the scenarios use.\<close>

lemma strtof_37_5: "strtof ''37.5'' = (0x42160000, 4)"
  by (simp add: text_eval float_eval)

lemma strtof_1000: "strtof ''1000'' = (0x447A0000, 4)"
  by (simp add: text_eval float_eval)

lemma strtol_37_5: "strtol ''37.5'' = (37, 2)"
  by (simp add: text_eval)

lemma strtol_20000: "strtol ''20000'' = (20000, 5)"
  by (simp add: text_eval)

lemma strtol_70000: "strtol ''70000'' = (70000, 5)"
  by (simp add: text_eval)

lemma format_2f_37_5: "format_2f 0x42160000 = ''37.50''"
  by (simp add: text_eval float_eval)

lemma format_d_4464: "format_d 4464 = ''4464''"
  by (simp add: text_eval)

subsection \<open>The table and the identifiers\<close>

lemma kPropertyCount_eq: "kPropertyCount = 2"
  by (simp add: kPropertyCount_def kPropertyTable_def)

lemma size_of_table:
  "size_of (kPropertyTable ! 0) = 4" "size_of (kPropertyTable ! Suc 0) = 2"
  by (simp_all add: kPropertyTable_def makeHandler_def rep_TemperatureSetpoint_def
      rep_DeviceVoltage_def)

lemma kMaxPropertySize_eq: "kMaxPropertySize = 4"
  by (simp add: kMaxPropertySize_def compute_max_size_def compute_max_size_loop.simps
      kPropertyCount_eq size_of_table)

lemma zero_buffer: "replicate kMaxPropertySize (0 :: byte) = [0, 0, 0, 0]"
  by (simp add: kMaxPropertySize_eq eval_nat_numeral)

lemma unat_PropertyID:
  "unat PropertyID_TemperatureSetpoint = 0" "unat PropertyID_DeviceVoltage = 1"
  by (simp_all add: PropertyID_TemperatureSetpoint_def PropertyID_DeviceVoltage_def)

lemma enumerator_iff: "pid \<in> set PropertyID_enumerators \<longleftrightarrow> unat pid < kPropertyCount"
proof -
  have "unat pid < 2 \<longleftrightarrow> unat pid = 0 \<or> unat pid = 1"
    by arith
  also have "\<dots> \<longleftrightarrow> pid = 0 \<or> pid = 1"
    using word_unat_eq_iff [of pid 0] word_unat_eq_iff [of pid 1] by simp
  finally show ?thesis
    by (auto simp add: PropertyID_enumerators_def PropertyID_TemperatureSetpoint_def
        PropertyID_DeviceVoltage_def kPropertyCount_eq)
qed

lemma enumerator_cases:
  assumes "pid \<in> set PropertyID_enumerators"
  obtains "pid = PropertyID_TemperatureSetpoint" | "pid = PropertyID_DeviceVoltage"
  using assms by (auto simp add: PropertyID_enumerators_def)

lemma handler_TemperatureSetpoint:
  "handler PropertyID_TemperatureSetpoint =
     Defined (makeHandler PropertyTraits_TemperatureSetpoint rep_TemperatureSetpoint)"
  by (simp add: handler_def array_at_def PropertyID_TemperatureSetpoint_def kPropertyTable_def)

lemma handler_DeviceVoltage:
  "handler PropertyID_DeviceVoltage =
     Defined (makeHandler PropertyTraits_DeviceVoltage rep_DeviceVoltage)"
  by (simp add: handler_def array_at_def PropertyID_DeviceVoltage_def kPropertyTable_def)

subsection \<open>Object representations\<close>

text \<open>Writing a scalar and reading it back, whatever follows it in the buffer.\<close>

lemma length_le_bytes: "length (le_bytes n w) = n"
  by (simp add: le_bytes_def)

lemma le_word_le_bytes_32: "le_word (le_bytes 4 (w :: 32 word)) = w"
  apply (simp add: le_bytes_def le_word_def upt_rec)
  apply (rule bit_word_eqI)
  apply (auto simp add: bit_simps)
  apply (rule ccontr, simp)
  done

lemma le_word_le_bytes_16: "le_word (le_bytes 2 (w :: 16 word)) = w"
  apply (simp add: le_bytes_def le_word_def upt_rec)
  apply (rule bit_word_eqI)
  apply (auto simp add: bit_simps)
  done

lemma rep_TemperatureSetpoint_simps:
  "sizeof rep_TemperatureSetpoint = 4"
  "length (to_bytes rep_TemperatureSetpoint v) = 4"
  "from_bytes rep_TemperatureSetpoint (to_bytes rep_TemperatureSetpoint v @ r) = v"
  by (simp_all add: rep_TemperatureSetpoint_def length_le_bytes le_word_le_bytes_32)

lemma rep_DeviceVoltage_simps:
  "sizeof rep_DeviceVoltage = 2"
  "length (to_bytes rep_DeviceVoltage p) = 2"
  "from_bytes rep_DeviceVoltage (to_bytes rep_DeviceVoltage p @ r) = p"
  by (simp_all add: rep_DeviceVoltage_def length_le_bytes le_word_le_bytes_16)

lemma rep_TemperatureSetpoint_inverse [simp]:
  "from_bytes rep_TemperatureSetpoint (to_bytes rep_TemperatureSetpoint v) = v"
  using rep_TemperatureSetpoint_simps(3) [of v "[]"] by simp

lemma rep_DeviceVoltage_inverse [simp]:
  "from_bytes rep_DeviceVoltage (to_bytes rep_DeviceVoltage p) = p"
  using rep_DeviceVoltage_simps(3) [of p "[]"] by simp

lemma from_bytes_zero:
  "from_bytes rep_TemperatureSetpoint [0, 0, 0, 0] = TemperatureSetpoint 0"
  "from_bytes rep_DeviceVoltage [0, 0, 0, 0] = DeviceVoltage 0"
  by (simp_all add: rep_TemperatureSetpoint_def rep_DeviceVoltage_def le_word_def)

lemma bytes_m1234: "le_bytes 4 (0xC49A4000 :: float) = [0x00, 0x40, 0x9A, 0xC4]"
  by (simp add: le_bytes_def upt_rec)

lemma TemperatureSetpoint_handler_simps:
  "size_of (makeHandler PropertyTraits_TemperatureSetpoint rep_TemperatureSetpoint) = 4"
  "validate (makeHandler PropertyTraits_TemperatureSetpoint rep_TemperatureSetpoint) bs =
     PropertyTraits_TemperatureSetpoint_validate (from_bytes rep_TemperatureSetpoint bs)"
  "parse (makeHandler PropertyTraits_TemperatureSetpoint rep_TemperatureSetpoint) =
     Some (\<lambda>inp out.
       let (ok, v) = PropertyTraits_TemperatureSetpoint_parse inp (from_bytes rep_TemperatureSetpoint out)
       in (ok, to_bytes rep_TemperatureSetpoint v @ drop 4 out))"
  "serialize (makeHandler PropertyTraits_TemperatureSetpoint rep_TemperatureSetpoint) =
     Some (\<lambda>inp out n.
       PropertyTraits_TemperatureSetpoint_serialize (from_bytes rep_TemperatureSetpoint inp) out n)"
  by (simp_all add: makeHandler_def PropertyTraits_TemperatureSetpoint_def rep_TemperatureSetpoint_simps)

lemma DeviceVoltage_handler_simps:
  "size_of (makeHandler PropertyTraits_DeviceVoltage rep_DeviceVoltage) = 2"
  "validate (makeHandler PropertyTraits_DeviceVoltage rep_DeviceVoltage) bs =
     PropertyTraits_DeviceVoltage_validate (from_bytes rep_DeviceVoltage bs)"
  "parse (makeHandler PropertyTraits_DeviceVoltage rep_DeviceVoltage) =
     Some (\<lambda>inp out.
       let (ok, v) = PropertyTraits_DeviceVoltage_parse inp (from_bytes rep_DeviceVoltage out)
       in (ok, to_bytes rep_DeviceVoltage v @ drop 2 out))"
  "serialize (makeHandler PropertyTraits_DeviceVoltage rep_DeviceVoltage) =
     Some (\<lambda>inp out n.
       PropertyTraits_DeviceVoltage_serialize (from_bytes rep_DeviceVoltage inp) out n)"
  by (simp_all add: makeHandler_def PropertyTraits_DeviceVoltage_def rep_DeviceVoltage_simps)

lemma handler_serialize:
  assumes "pid \<in> set PropertyID_enumerators"
  shows "\<exists>h f. handler pid = Defined h \<and> serialize h = Some f"
  using assms
  by (cases rule: enumerator_cases)
     (simp_all add: handler_TemperatureSetpoint handler_DeviceVoltage makeHandler_def)

subsection \<open>The descriptors on particular texts and values\<close>

lemma parse_null:
  "PropertyTraits_TemperatureSetpoint_parse None t = (False, t)"
  "PropertyTraits_DeviceVoltage_parse None p = (False, p)"
  "ParameterTraits_TemperatureSetpoint_parse None t = (False, t)"
  "ParameterTraits_HighTemperatureAlarm_parse None a = (False, a)"
  by (simp_all add: PropertyTraits_TemperatureSetpoint_parse_def
      PropertyTraits_DeviceVoltage_parse_def ParameterTraits_TemperatureSetpoint_parse_def
      ParameterTraits_HighTemperatureAlarm_parse_def)

lemma PropertyTraits_parse_accepts:
  "fst (PropertyTraits_TemperatureSetpoint_parse (Some s) t) \<longleftrightarrow> snd (strtof s) \<noteq> 0"
  "fst (PropertyTraits_DeviceVoltage_parse (Some s) p) \<longleftrightarrow> snd (strtol s) \<noteq> 0"
  by (simp_all add: PropertyTraits_TemperatureSetpoint_parse_def
      PropertyTraits_DeviceVoltage_parse_def split: prod.splits)

lemma ParameterTraits_parse_accepts:
  "fst (ParameterTraits_TemperatureSetpoint_parse (Some s) t) \<longleftrightarrow>
     snd (strtof s) \<noteq> 0 \<and>
     ParameterTraits_TemperatureSetpoint_validate (TemperatureSetpoint (fst (strtof s)))"
  "fst (ParameterTraits_HighTemperatureAlarm_parse (Some s) a) \<longleftrightarrow>
     snd (strtof s) \<noteq> 0 \<and>
     ParameterTraits_HighTemperatureAlarm_validate (HighTemperatureAlarm (fst (strtof s)))"
  by (simp_all add: ParameterTraits_TemperatureSetpoint_parse_def
      ParameterTraits_HighTemperatureAlarm_parse_def split: prod.splits)

lemma parse_TemperatureSetpoint_37_5:
  "PropertyTraits_TemperatureSetpoint_parse (Some ''37.5'') t = (True, TemperatureSetpoint 0x42160000)"
  by (simp add: PropertyTraits_TemperatureSetpoint_parse_def strtof_37_5)

lemma parse_TemperatureSetpoint_1000:
  "PropertyTraits_TemperatureSetpoint_parse (Some ''1000'') t = (True, TemperatureSetpoint 0x447A0000)"
  by (simp add: PropertyTraits_TemperatureSetpoint_parse_def strtof_1000)

lemma parse_DeviceVoltage_37_5:
  "PropertyTraits_DeviceVoltage_parse (Some ''37.5'') p = (True, DeviceVoltage 37)"
  by (simp add: PropertyTraits_DeviceVoltage_parse_def strtol_37_5)

lemma parse_DeviceVoltage_20000:
  "PropertyTraits_DeviceVoltage_parse (Some ''20000'') p = (True, DeviceVoltage 20000)"
  by (simp add: PropertyTraits_DeviceVoltage_parse_def strtol_20000)

lemma parse_DeviceVoltage_70000:
  "PropertyTraits_DeviceVoltage_parse (Some ''70000'') p = (True, DeviceVoltage 4464)"
  by (simp add: PropertyTraits_DeviceVoltage_parse_def strtol_70000)

lemma TemperatureSetpoint_valid_23:
  "PropertyTraits_TemperatureSetpoint_validate (TemperatureSetpoint 0x41B80000)"
  by (simp add: PropertyTraits_TemperatureSetpoint_validate_def float_literals float_order_eval)

lemma TemperatureSetpoint_valid_37_5:
  "PropertyTraits_TemperatureSetpoint_validate (TemperatureSetpoint 0x42160000)"
  by (simp add: PropertyTraits_TemperatureSetpoint_validate_def float_literals float_order_eval)

lemma TemperatureSetpoint_invalid_1000:
  "\<not> PropertyTraits_TemperatureSetpoint_validate (TemperatureSetpoint 0x447A0000)"
  by (simp add: PropertyTraits_TemperatureSetpoint_validate_def float_literals float_order_eval)

lemma TemperatureSetpoint_invalid_m1234:
  "\<not> PropertyTraits_TemperatureSetpoint_validate (TemperatureSetpoint 0xC49A4000)"
  by (simp add: PropertyTraits_TemperatureSetpoint_validate_def float_literals float_order_eval)

lemma DeviceVoltage_valid_1013: "PropertyTraits_DeviceVoltage_validate (DeviceVoltage 1013)"
  by (simp add: PropertyTraits_DeviceVoltage_validate_def)

lemma DeviceVoltage_valid_37: "PropertyTraits_DeviceVoltage_validate (DeviceVoltage 37)"
  by (simp add: PropertyTraits_DeviceVoltage_validate_def)

lemma DeviceVoltage_valid_4464: "PropertyTraits_DeviceVoltage_validate (DeviceVoltage 4464)"
  by (simp add: PropertyTraits_DeviceVoltage_validate_def)

lemma DeviceVoltage_invalid_20000: "\<not> PropertyTraits_DeviceVoltage_validate (DeviceVoltage 20000)"
  by (simp add: PropertyTraits_DeviceVoltage_validate_def)

lemma ParameterTraits_valid_37_5:
  "ParameterTraits_TemperatureSetpoint_validate (TemperatureSetpoint 0x42160000)"
  "ParameterTraits_HighTemperatureAlarm_validate (HighTemperatureAlarm 0x42160000)"
  by (simp_all add: ParameterTraits_TemperatureSetpoint_validate_def
      ParameterTraits_HighTemperatureAlarm_validate_def float_literals float_order_eval)

subsection \<open>What a set operation returns, and what it keeps\<close>

text \<open>
  A set operation that returns leaves either the store it was given, with the result
  false, or the store with the one slot rewritten, after \<^verbatim>\<open>validate\<close> has accepted the
  scratch buffer.  Either way a store of the program stays one.
\<close>

lemma setRaw_result:
  assumes "setRaw st q data len = Defined (ok, st')"
  shows "(\<not> ok \<and> st' = st) \<or>
         (ok \<and> (\<exists>h tmp s b. handler q = Defined h \<and> len = size_of h \<and>
              memcpy (replicate kMaxPropertySize 0) data len = Defined tmp \<and> validate h tmp \<and>
              array_at (slots st) (unat q) = Defined s \<and> memcpy (buf s) data len = Defined b \<and>
              st' = st\<lparr>slots := (slots st)[unat q := s\<lparr>buf := b, sz := len, has_value := True\<rparr>]\<rparr>))"
  using assms by (auto simp add: setRaw_def split: outcome.splits if_splits)

lemma setFromText_result:
  assumes "setFromText st q text = Defined (ok, st')"
  shows "(\<not> ok \<and> st' = st) \<or>
         (ok \<and> (\<exists>h parse_fn tmp s b. handler q = Defined h \<and> parse h = Some parse_fn \<and>
              parse_fn text (replicate kMaxPropertySize 0) = (True, tmp) \<and> validate h tmp \<and>
              array_at (slots st) (unat q) = Defined s \<and>
              memcpy (buf s) tmp (size_of h) = Defined b \<and>
              st' = st\<lparr>slots := (slots st)[unat q := s\<lparr>buf := b, sz := size_of h, has_value := True\<rparr>]\<rparr>))"
  using assms
  by (auto simp add: setFromText_def split: outcome.splits option.splits if_splits prod.splits)

lemma memcpy_length: "memcpy dst src n = Defined b \<Longrightarrow> length b = length dst"
  by (auto simp add: memcpy_def split: if_splits)

lemma store_ok_update:
  assumes "store_ok st" "array_at (slots st) i = Defined s" "length b = length (buf s)"
  shows "store_ok (st\<lparr>slots := (slots st)[i := s\<lparr>buf := b, sz := n, has_value := v\<rparr>]\<rparr>)"
proof -
  from assms(2) have i: "i < length (slots st)" and s: "s = slots st ! i"
    by (auto simp add: array_at_def split: if_splits)
  from assms(1) i s have "length (buf s) = kMaxPropertySize"
    by (simp add: store_ok_def list_all_length)
  with assms(1,3) i show ?thesis
    by (auto simp add: store_ok_def list_all_length nth_list_update)
qed

lemma setRaw_store_ok:
  assumes "store_ok st" "setRaw st q data len = Defined (ok, st')"
  shows "store_ok st'"
  using setRaw_result [OF assms(2)] assms(1)
  by (auto simp add: store_ok_update memcpy_length)

lemma setFromText_store_ok:
  assumes "store_ok st" "setFromText st q text = Defined (ok, st')"
  shows "store_ok st'"
  using setFromText_result [OF assms(2)] assms(1)
  by (auto simp add: store_ok_update memcpy_length)

lemma setRaw_other_slot:
  assumes "setRaw st q data len = Defined (ok, st')" "q \<noteq> pid \<or> \<not> ok"
  shows "slots st' ! unat pid = slots st ! unat pid"
  using setRaw_result [OF assms(1)] assms(2)
  by (auto simp add: word_unat_eq_iff)

lemma setFromText_other_slot:
  assumes "setFromText st q text = Defined (ok, st')" "q \<noteq> pid \<or> \<not> ok"
  shows "slots st' ! unat pid = slots st ! unat pid"
  using setFromText_result [OF assms(1)] assms(2)
  by (auto simp add: word_unat_eq_iff)

lemma store_ok_init: "store_ok PropertyStore_init"
  by (simp add: store_ok_def PropertyStore_init_def list_all_length)

lemma init_slot:
  "i < kPropertyCount \<Longrightarrow>
   slots PropertyStore_init ! i = \<lparr>buf = replicate kMaxPropertySize 0, sz = 0, has_value = False\<rparr>"
  by (simp add: PropertyStore_init_def)

lemma never_written_inv:
  assumes "never_written pid st" "pid \<in> set PropertyID_enumerators"
  shows "store_ok st \<and> \<not> has_value (slots st ! unat pid)"
  using assms
proof (induction rule: never_written.induct)
  case never_written_init
  then show ?case
    by (simp add: store_ok_init init_slot enumerator_iff)
next
  case (never_written_setRaw st q data len ok st')
  then show ?case
    using setRaw_store_ok setRaw_other_slot by metis
next
  case (never_written_setFromText st q inp ok st')
  then show ?case
    using setFromText_store_ok setFromText_other_slot by metis
qed

lemma slot_at:
  assumes "store_ok st" "pid \<in> set PropertyID_enumerators"
  shows "array_at (slots st) (unat pid) = Defined (slots st ! unat pid)"
  using assms by (simp add: array_at_def store_ok_def enumerator_iff)

lemma slot_buf_length:
  assumes "store_ok st" "i < kPropertyCount"
  shows "length (buf (slots st ! i)) = 4" "array_at (slots st) i = Defined (slots st ! i)"
  using assms by (simp_all add: store_ok_def list_all_length array_at_def kMaxPropertySize_eq)

subsection \<open>The operations on the two identifiers, in a store of the program\<close>

lemma set_TemperatureSetpoint:
  assumes "store_ok st"
  shows "PropertyStore_set rep_TemperatureSetpoint st PropertyID_TemperatureSetpoint v =
     (if PropertyTraits_TemperatureSetpoint_validate v
      then Defined (True, st\<lparr>slots := (slots st)[0 := (slots st ! 0)
             \<lparr>buf := to_bytes rep_TemperatureSetpoint v, sz := 4, has_value := True\<rparr>]\<rparr>)
      else Defined (False, st))"
  using slot_buf_length [OF assms, of 0]
  by (simp add: PropertyStore_set_def setRaw_def handler_TemperatureSetpoint
      TemperatureSetpoint_handler_simps rep_TemperatureSetpoint_simps memcpy_def zero_buffer
      kPropertyCount_eq unat_PropertyID)

lemma set_DeviceVoltage:
  assumes "store_ok st"
  shows "PropertyStore_set rep_DeviceVoltage st PropertyID_DeviceVoltage p =
     (if PropertyTraits_DeviceVoltage_validate p
      then Defined (True, st\<lparr>slots := (slots st)[1 := (slots st ! 1)
             \<lparr>buf := to_bytes rep_DeviceVoltage p @ drop 2 (buf (slots st ! 1)),
              sz := 2, has_value := True\<rparr>]\<rparr>)
      else Defined (False, st))"
  using slot_buf_length [OF assms, of 1] rep_DeviceVoltage_simps(3) [of p "[0, 0]"]
  by (simp add: PropertyStore_set_def setRaw_def handler_DeviceVoltage
      DeviceVoltage_handler_simps rep_DeviceVoltage_simps(1,2) memcpy_def zero_buffer
      kPropertyCount_eq unat_PropertyID)

lemma setFromText_TemperatureSetpoint:
  assumes "store_ok st"
    and "PropertyTraits_TemperatureSetpoint_parse text (TemperatureSetpoint 0) = (ok, v)"
  shows "setFromText st PropertyID_TemperatureSetpoint text =
     (if ok \<and> PropertyTraits_TemperatureSetpoint_validate v
      then Defined (True, st\<lparr>slots := (slots st)[0 := (slots st ! 0)
             \<lparr>buf := to_bytes rep_TemperatureSetpoint v, sz := 4, has_value := True\<rparr>]\<rparr>)
      else Defined (False, st))"
  using slot_buf_length [OF assms(1), of 0] assms(2)
  by (simp add: setFromText_def handler_TemperatureSetpoint
      TemperatureSetpoint_handler_simps rep_TemperatureSetpoint_simps memcpy_def zero_buffer
      from_bytes_zero kPropertyCount_eq unat_PropertyID)

lemma setFromText_DeviceVoltage:
  assumes "store_ok st"
    and "PropertyTraits_DeviceVoltage_parse text (DeviceVoltage 0) = (ok, p)"
  shows "setFromText st PropertyID_DeviceVoltage text =
     (if ok \<and> PropertyTraits_DeviceVoltage_validate p
      then Defined (True, st\<lparr>slots := (slots st)[1 := (slots st ! 1)
             \<lparr>buf := to_bytes rep_DeviceVoltage p @ drop 2 (buf (slots st ! 1)),
              sz := 2, has_value := True\<rparr>]\<rparr>)
      else Defined (False, st))"
  using slot_buf_length [OF assms(1), of 1] assms(2) rep_DeviceVoltage_simps(3) [of p "[0, 0]"]
  by (simp add: setFromText_def handler_DeviceVoltage
      DeviceVoltage_handler_simps rep_DeviceVoltage_simps(1,2) memcpy_def zero_buffer
      from_bytes_zero kPropertyCount_eq unat_PropertyID)

lemma setFromText_TemperatureSetpoint_checks:
  assumes "setFromText st PropertyID_TemperatureSetpoint (Some s) = Defined (True, st')"
  shows "fst (PropertyTraits_TemperatureSetpoint_parse (Some s) (TemperatureSetpoint 0)) \<and>
         PropertyTraits_TemperatureSetpoint_validate
           (snd (PropertyTraits_TemperatureSetpoint_parse (Some s) (TemperatureSetpoint 0)))"
  using setFromText_result [OF assms]
  by (auto simp add: handler_TemperatureSetpoint TemperatureSetpoint_handler_simps zero_buffer
      from_bytes_zero rep_TemperatureSetpoint_simps split: prod.splits)

lemma setFromText_DeviceVoltage_checks:
  assumes "setFromText st PropertyID_DeviceVoltage (Some s) = Defined (True, st')"
  shows "fst (PropertyTraits_DeviceVoltage_parse (Some s) (DeviceVoltage 0)) \<and>
         PropertyTraits_DeviceVoltage_validate
           (snd (PropertyTraits_DeviceVoltage_parse (Some s) (DeviceVoltage 0)))"
  using setFromText_result [OF assms]
  by (auto simp add: handler_DeviceVoltage DeviceVoltage_handler_simps zero_buffer
      from_bytes_zero rep_DeviceVoltage_simps split: prod.splits)

lemma get_after_set_TemperatureSetpoint:
  assumes "store_ok st"
  shows "getRaw (st\<lparr>slots := (slots st)[0 := (slots st ! 0)
             \<lparr>buf := to_bytes rep_TemperatureSetpoint t, sz := 4, has_value := True\<rparr>]\<rparr>)
           PropertyID_TemperatureSetpoint (to_bytes rep_TemperatureSetpoint out) 4
         = Defined (True, to_bytes rep_TemperatureSetpoint t)"
  using assms
  by (simp add: getRaw_def array_at_def unat_PropertyID store_ok_def kPropertyCount_eq memcpy_def
      rep_TemperatureSetpoint_simps)

lemma get_after_set_DeviceVoltage:
  assumes "store_ok st"
  shows "getRaw (st\<lparr>slots := (slots st)[1 := (slots st ! 1)
             \<lparr>buf := to_bytes rep_DeviceVoltage p @ drop 2 (buf (slots st ! 1)),
              sz := 2, has_value := True\<rparr>]\<rparr>)
           PropertyID_DeviceVoltage (to_bytes rep_DeviceVoltage out) 2
         = Defined (True, to_bytes rep_DeviceVoltage p)"
  using assms
  by (simp add: getRaw_def array_at_def unat_PropertyID store_ok_def kPropertyCount_eq memcpy_def
      rep_DeviceVoltage_simps)

lemma getAsText_after_set_TemperatureSetpoint:
  assumes "store_ok st"
  shows "getAsText (st\<lparr>slots := (slots st)[0 := (slots st ! 0)
             \<lparr>buf := to_bytes rep_TemperatureSetpoint t, sz := 4, has_value := True\<rparr>]\<rparr>)
           PropertyID_TemperatureSetpoint out n
         = Defined (snprintf out n (format_2f (TemperatureSetpoint_value t)))"
  using assms
  by (simp add: getAsText_def handler_TemperatureSetpoint TemperatureSetpoint_handler_simps
      array_at_def unat_PropertyID store_ok_def kPropertyCount_eq
      PropertyTraits_TemperatureSetpoint_serialize_def)

lemma getAsText_after_set_DeviceVoltage:
  assumes "store_ok st"
  shows "getAsText (st\<lparr>slots := (slots st)[1 := (slots st ! 1)
             \<lparr>buf := to_bytes rep_DeviceVoltage p @ drop 2 (buf (slots st ! 1)),
              sz := 2, has_value := True\<rparr>]\<rparr>)
           PropertyID_DeviceVoltage out n
         = Defined (snprintf out n (format_d (sint (DeviceVoltage_value p))))"
  using assms
  by (simp add: getAsText_def handler_DeviceVoltage DeviceVoltage_handler_simps
      array_at_def unat_PropertyID store_ok_def kPropertyCount_eq
      rep_DeviceVoltage_simps PropertyTraits_DeviceVoltage_serialize_def)

section \<open>The claims\<close>

text \<open>
  C1: every set operation is all-or-nothing.  When \<^verbatim>\<open>setRaw\<close>, the typed \<^verbatim>\<open>set\<close> or
  \<^verbatim>\<open>setFromText\<close> returns false, the store it leaves is the store it was given: every
  slot's buffer, recorded length and presence flag, the never-written state included.
  When one returns true, its handler's \<^verbatim>\<open>validate\<close> has accepted the scratch copy
  \<^verbatim>\<open>tmp\<close> (the copied bytes, resp. the parsed bytes): the slot is written only after that.
\<close>

theorem set_all_or_nothing:
  "(setRaw st pid data len = Defined (ok, st') \<longrightarrow>
      (if ok
       then \<exists>h tmp. handler pid = Defined h \<and>
              memcpy (replicate kMaxPropertySize 0) data len = Defined tmp \<and> validate h tmp
       else st' = st)) \<and>
   (PropertyStore_set R st pid v = Defined (ok, st') \<longrightarrow>
      (if ok
       then \<exists>h tmp. handler pid = Defined h \<and>
              memcpy (replicate kMaxPropertySize 0) (to_bytes R v) (sizeof R) = Defined tmp \<and>
              validate h tmp
       else st' = st)) \<and>
   (setFromText st pid text = Defined (ok, st') \<longrightarrow>
      (if ok
       then \<exists>h parse_fn tmp. handler pid = Defined h \<and> parse h = Some parse_fn \<and>
              parse_fn text (replicate kMaxPropertySize 0) = (True, tmp) \<and> validate h tmp
       else st' = st))"
proof (intro conjI impI)
  assume "setRaw st pid data len = Defined (ok, st')"
  from setRaw_result [OF this]
  show "if ok
        then \<exists>h tmp. handler pid = Defined h \<and>
               memcpy (replicate kMaxPropertySize 0) data len = Defined tmp \<and> validate h tmp
        else st' = st"
    by auto
next
  assume "PropertyStore_set R st pid v = Defined (ok, st')"
  then have "setRaw st pid (to_bytes R v) (sizeof R) = Defined (ok, st')"
    by (simp add: PropertyStore_set_def)
  from setRaw_result [OF this]
  show "if ok
        then \<exists>h tmp. handler pid = Defined h \<and>
               memcpy (replicate kMaxPropertySize 0) (to_bytes R v) (sizeof R) = Defined tmp \<and>
               validate h tmp
        else st' = st"
    by auto
next
  assume "setFromText st pid text = Defined (ok, st')"
  from setFromText_result [OF this]
  show "if ok
        then \<exists>h parse_fn tmp. handler pid = Defined h \<and> parse h = Some parse_fn \<and>
               parse_fn text (replicate kMaxPropertySize 0) = (True, tmp) \<and> validate h tmp
        else st' = st"
    by auto
qed

text \<open>
  On the initial store and the temperature identifier: the bytes of \<^verbatim>\<open>-1234.0f\<close>, the
  value \<^verbatim>\<open>TemperatureSetpoint{-1234.0f}\<close>, and the text \<^verbatim>\<open>"1000"\<close>, which parses and is then
  refused by \<^verbatim>\<open>validate\<close>.
\<close>

theorem set_all_or_nothing_witness:
  "setRaw PropertyStore_init PropertyID_TemperatureSetpoint [0x00, 0x40, 0x9A, 0xC4] 4
     = Defined (False, PropertyStore_init) \<and>
   PropertyStore_set rep_TemperatureSetpoint PropertyStore_init PropertyID_TemperatureSetpoint
       (TemperatureSetpoint 0xC49A4000)
     = Defined (False, PropertyStore_init) \<and>
   setFromText PropertyStore_init PropertyID_TemperatureSetpoint (Some ''1000'')
     = Defined (False, PropertyStore_init)"
proof -
  have typed: "PropertyStore_set rep_TemperatureSetpoint PropertyStore_init
      PropertyID_TemperatureSetpoint (TemperatureSetpoint 0xC49A4000)
      = Defined (False, PropertyStore_init)"
    by (simp add: set_TemperatureSetpoint [OF store_ok_init] TemperatureSetpoint_invalid_m1234)
  then have raw: "setRaw PropertyStore_init PropertyID_TemperatureSetpoint [0x00, 0x40, 0x9A, 0xC4] 4
      = Defined (False, PropertyStore_init)"
    by (simp add: PropertyStore_set_def rep_TemperatureSetpoint_def bytes_m1234)
  have from_text: "setFromText PropertyStore_init PropertyID_TemperatureSetpoint (Some ''1000'')
      = Defined (False, PropertyStore_init)"
    by (simp add: setFromText_TemperatureSetpoint [OF store_ok_init parse_TemperatureSetpoint_1000]
        TemperatureSetpoint_invalid_1000)
  from set_all_or_nothing [of PropertyStore_init PropertyID_TemperatureSetpoint
      "[0x00, 0x40, 0x9A, 0xC4]" 4 False PropertyStore_init rep_TemperatureSetpoint
      "TemperatureSetpoint 0xC49A4000" "Some ''1000''"] raw typed from_text
  show ?thesis
    by simp
qed

text \<open>
  C2: the typed round trip.  In a store of the program, for each identifier and every
  value of the type bound to it that satisfies the type's \<^verbatim>\<open>validate\<close>, \<^verbatim>\<open>set\<close> returns
  true, and a \<^verbatim>\<open>get\<close> of the same type on the resulting store returns true and yields the
  value; the bytes \<^verbatim>\<open>getRaw\<close> copies out are the bytes of the value.
\<close>

theorem typed_round_trip:
  assumes "store_ok st"
  shows "(PropertyTraits_TemperatureSetpoint_validate t \<longrightarrow>
            (\<exists>st'. PropertyStore_set rep_TemperatureSetpoint st PropertyID_TemperatureSetpoint t
                      = Defined (True, st') \<and>
                    PropertyStore_get rep_TemperatureSetpoint st' PropertyID_TemperatureSetpoint out_t
                      = Defined (True, t) \<and>
                    getRaw st' PropertyID_TemperatureSetpoint (to_bytes rep_TemperatureSetpoint out_t)
                        (sizeof rep_TemperatureSetpoint)
                      = Defined (True, to_bytes rep_TemperatureSetpoint t))) \<and>
         (PropertyTraits_DeviceVoltage_validate p \<longrightarrow>
            (\<exists>st'. PropertyStore_set rep_DeviceVoltage st PropertyID_DeviceVoltage p
                      = Defined (True, st') \<and>
                    PropertyStore_get rep_DeviceVoltage st' PropertyID_DeviceVoltage out_p
                      = Defined (True, p) \<and>
                    getRaw st' PropertyID_DeviceVoltage (to_bytes rep_DeviceVoltage out_p)
                        (sizeof rep_DeviceVoltage)
                      = Defined (True, to_bytes rep_DeviceVoltage p)))"
proof (intro conjI impI)
  assume "PropertyTraits_TemperatureSetpoint_validate t"
  then show "\<exists>st'. PropertyStore_set rep_TemperatureSetpoint st PropertyID_TemperatureSetpoint t
                      = Defined (True, st') \<and>
                    PropertyStore_get rep_TemperatureSetpoint st' PropertyID_TemperatureSetpoint out_t
                      = Defined (True, t) \<and>
                    getRaw st' PropertyID_TemperatureSetpoint (to_bytes rep_TemperatureSetpoint out_t)
                        (sizeof rep_TemperatureSetpoint)
                      = Defined (True, to_bytes rep_TemperatureSetpoint t)"
    by (simp add: set_TemperatureSetpoint [OF assms] PropertyStore_get_def
        rep_TemperatureSetpoint_simps(1) get_after_set_TemperatureSetpoint [OF assms])
next
  assume "PropertyTraits_DeviceVoltage_validate p"
  then show "\<exists>st'. PropertyStore_set rep_DeviceVoltage st PropertyID_DeviceVoltage p
                      = Defined (True, st') \<and>
                    PropertyStore_get rep_DeviceVoltage st' PropertyID_DeviceVoltage out_p
                      = Defined (True, p) \<and>
                    getRaw st' PropertyID_DeviceVoltage (to_bytes rep_DeviceVoltage out_p)
                        (sizeof rep_DeviceVoltage)
                      = Defined (True, to_bytes rep_DeviceVoltage p)"
    using get_after_set_DeviceVoltage [OF assms, of p out_p]
    by (simp add: set_DeviceVoltage [OF assms] PropertyStore_get_def rep_DeviceVoltage_simps(1))
qed

text \<open>On the initial store, with the two default values \<^verbatim>\<open>23.0f\<close> and 1013.\<close>

theorem typed_round_trip_witness:
  "store_ok PropertyStore_init \<and>
   PropertyTraits_TemperatureSetpoint_validate (TemperatureSetpoint 0x41B80000) \<and>
   PropertyTraits_DeviceVoltage_validate (DeviceVoltage 1013) \<and>
   (\<exists>st'. PropertyStore_set rep_TemperatureSetpoint PropertyStore_init
             PropertyID_TemperatureSetpoint (TemperatureSetpoint 0x41B80000) = Defined (True, st') \<and>
          PropertyStore_get rep_TemperatureSetpoint st' PropertyID_TemperatureSetpoint
             (TemperatureSetpoint 0) = Defined (True, TemperatureSetpoint 0x41B80000)) \<and>
   (\<exists>st'. PropertyStore_set rep_DeviceVoltage PropertyStore_init
             PropertyID_DeviceVoltage (DeviceVoltage 1013) = Defined (True, st') \<and>
          PropertyStore_get rep_DeviceVoltage st' PropertyID_DeviceVoltage
             (DeviceVoltage 0) = Defined (True, DeviceVoltage 1013))"
  using typed_round_trip [OF store_ok_init, of "TemperatureSetpoint 0x41B80000"
      "TemperatureSetpoint 0" "DeviceVoltage 1013" "DeviceVoltage 0"]
    store_ok_init TemperatureSetpoint_valid_23 DeviceVoltage_valid_1013
  by blast

text \<open>
  C3, as the code has it.  The two \<^verbatim>\<open>PropertyTraits\<close> descriptors parse without
  validating: \<^verbatim>\<open>parse\<close> returns true exactly when \<^verbatim>\<open>strtof\<close>, resp. \<^verbatim>\<open>strtol\<close>, consumed
  a numeric prefix, whatever the value (\<^verbatim>\<open>"1000"\<close> and \<^verbatim>\<open>"20000"\<close> parse and are outside the
  domains), and \<^verbatim>\<open>setFromText\<close> commits only when both \<^verbatim>\<open>parse\<close> and \<^verbatim>\<open>validate\<close> have
  passed.  The two \<^verbatim>\<open>ParameterTraits\<close> descriptors validate inside \<^verbatim>\<open>parse\<close>: it returns
  true exactly when there is a numeric prefix and the parsed value satisfies \<^verbatim>\<open>validate\<close>,
  so that there parse success implies validation success.
\<close>

theorem parse_and_validate:
  "(fst (PropertyTraits_TemperatureSetpoint_parse (Some s) t) \<longleftrightarrow> snd (strtof s) \<noteq> 0) \<and>
   (fst (PropertyTraits_DeviceVoltage_parse (Some s) p) \<longleftrightarrow> snd (strtol s) \<noteq> 0) \<and>
   (fst (PropertyTraits_TemperatureSetpoint_parse (Some ''1000'') t) \<and>
    \<not> PropertyTraits_TemperatureSetpoint_validate
        (snd (PropertyTraits_TemperatureSetpoint_parse (Some ''1000'') t))) \<and>
   (fst (PropertyTraits_DeviceVoltage_parse (Some ''20000'') p) \<and>
    \<not> PropertyTraits_DeviceVoltage_validate
        (snd (PropertyTraits_DeviceVoltage_parse (Some ''20000'') p))) \<and>
   (setFromText st PropertyID_TemperatureSetpoint (Some s) = Defined (True, st1) \<longrightarrow>
      fst (PropertyTraits_TemperatureSetpoint_parse (Some s) (TemperatureSetpoint 0)) \<and>
      PropertyTraits_TemperatureSetpoint_validate
        (snd (PropertyTraits_TemperatureSetpoint_parse (Some s) (TemperatureSetpoint 0)))) \<and>
   (setFromText st PropertyID_DeviceVoltage (Some s) = Defined (True, st2) \<longrightarrow>
      fst (PropertyTraits_DeviceVoltage_parse (Some s) (DeviceVoltage 0)) \<and>
      PropertyTraits_DeviceVoltage_validate
        (snd (PropertyTraits_DeviceVoltage_parse (Some s) (DeviceVoltage 0)))) \<and>
   (fst (ParameterTraits_TemperatureSetpoint_parse (Some s) t) \<longleftrightarrow>
      snd (strtof s) \<noteq> 0 \<and>
      ParameterTraits_TemperatureSetpoint_validate (TemperatureSetpoint (fst (strtof s)))) \<and>
   (fst (ParameterTraits_HighTemperatureAlarm_parse (Some s) a) \<longleftrightarrow>
      snd (strtof s) \<noteq> 0 \<and>
      ParameterTraits_HighTemperatureAlarm_validate (HighTemperatureAlarm (fst (strtof s))))"
  using setFromText_TemperatureSetpoint_checks [of st s st1]
    setFromText_DeviceVoltage_checks [of st s st2]
  by (simp add: PropertyTraits_parse_accepts ParameterTraits_parse_accepts
      parse_TemperatureSetpoint_1000 TemperatureSetpoint_invalid_1000
      parse_DeviceVoltage_20000 DeviceVoltage_invalid_20000 del: One_nat_def)

text \<open>
  With the text \<^verbatim>\<open>"37.5"\<close>, which both identifiers of the initial store accept (the voltage
  as 37) and both \<^verbatim>\<open>ParameterTraits\<close> parsers accept.
\<close>

theorem parse_and_validate_witness:
  "(\<exists>st1. setFromText PropertyStore_init PropertyID_TemperatureSetpoint (Some ''37.5'')
            = Defined (True, st1)) \<and>
   (\<exists>st2. setFromText PropertyStore_init PropertyID_DeviceVoltage (Some ''37.5'')
            = Defined (True, st2)) \<and>
   fst (PropertyTraits_TemperatureSetpoint_parse (Some ''37.5'') (TemperatureSetpoint 0)) \<and>
   PropertyTraits_TemperatureSetpoint_validate
     (snd (PropertyTraits_TemperatureSetpoint_parse (Some ''37.5'') (TemperatureSetpoint 0))) \<and>
   fst (PropertyTraits_DeviceVoltage_parse (Some ''37.5'') (DeviceVoltage 0)) \<and>
   PropertyTraits_DeviceVoltage_validate
     (snd (PropertyTraits_DeviceVoltage_parse (Some ''37.5'') (DeviceVoltage 0))) \<and>
   fst (ParameterTraits_TemperatureSetpoint_parse (Some ''37.5'') (TemperatureSetpoint 0)) \<and>
   fst (ParameterTraits_HighTemperatureAlarm_parse (Some ''37.5'') (HighTemperatureAlarm 0))"
proof -
  obtain st1 where s1: "setFromText PropertyStore_init PropertyID_TemperatureSetpoint (Some ''37.5'')
      = Defined (True, st1)"
    by (simp add: setFromText_TemperatureSetpoint [OF store_ok_init parse_TemperatureSetpoint_37_5]
        TemperatureSetpoint_valid_37_5)
  obtain st2 where s2: "setFromText PropertyStore_init PropertyID_DeviceVoltage (Some ''37.5'')
      = Defined (True, st2)"
    by (simp add: setFromText_DeviceVoltage [OF store_ok_init parse_DeviceVoltage_37_5]
        DeviceVoltage_valid_37)
  note T = parse_and_validate [of "''37.5''" "TemperatureSetpoint 0" "DeviceVoltage 0"
      PropertyStore_init st1 st2 "HighTemperatureAlarm 0"]
  from T s1 have a: "fst (PropertyTraits_TemperatureSetpoint_parse (Some ''37.5'') (TemperatureSetpoint 0)) \<and>
      PropertyTraits_TemperatureSetpoint_validate
        (snd (PropertyTraits_TemperatureSetpoint_parse (Some ''37.5'') (TemperatureSetpoint 0)))"
    by blast
  from T s2 have b: "fst (PropertyTraits_DeviceVoltage_parse (Some ''37.5'') (DeviceVoltage 0)) \<and>
      PropertyTraits_DeviceVoltage_validate
        (snd (PropertyTraits_DeviceVoltage_parse (Some ''37.5'') (DeviceVoltage 0)))"
    by blast
  have v: "snd (strtof ''37.5'') \<noteq> 0 \<and>
      ParameterTraits_TemperatureSetpoint_validate (TemperatureSetpoint (fst (strtof ''37.5''))) \<and>
      ParameterTraits_HighTemperatureAlarm_validate (HighTemperatureAlarm (fst (strtof ''37.5'')))"
    by (simp add: strtof_37_5 ParameterTraits_valid_37_5)
  from T v have c: "fst (ParameterTraits_TemperatureSetpoint_parse (Some ''37.5'') (TemperatureSetpoint 0)) \<and>
      fst (ParameterTraits_HighTemperatureAlarm_parse (Some ''37.5'') (HighTemperatureAlarm 0))"
    by blast
  from s1 s2 a b c show ?thesis
    by blast
qed

text \<open>
  The text \<^verbatim>\<open>"1000"\<close> is a numeric prefix of four characters, and both \<^verbatim>\<open>ParameterTraits\<close>
  parsers return false on it, having stored \<^verbatim>\<open>1000.0f\<close> in \<^verbatim>\<open>out\<close>.
\<close>

theorem ParameterTraits_parse_counterexample:
  "snd (strtof ''1000'') = 4 \<and>
   ParameterTraits_TemperatureSetpoint_parse (Some ''1000'') (TemperatureSetpoint 0)
     = (False, TemperatureSetpoint 0x447A0000) \<and>
   ParameterTraits_HighTemperatureAlarm_parse (Some ''1000'') (HighTemperatureAlarm 0)
     = (False, HighTemperatureAlarm 0x447A0000)"
  by (simp add: ParameterTraits_TemperatureSetpoint_parse_def
      ParameterTraits_HighTemperatureAlarm_parse_def strtof_1000
      ParameterTraits_TemperatureSetpoint_validate_def
      ParameterTraits_HighTemperatureAlarm_validate_def float_literals float_order_eval)

text \<open>
  C4: the handler table has as many entries as \<^verbatim>\<open>PropertyID\<close> has enumerators, the
  enumerators are the positions \<open>0, \<dots>, kPropertyCount - 1\<close> in order, and the entry at
  the ordinal of each enumerator carries the name and the \<^verbatim>\<open>sizeof\<close> of the value type of
  that name: 4 bytes for \<^verbatim>\<open>TemperatureSetpoint\<close> (a \<^verbatim>\<open>float\<close>), 2 for \<^verbatim>\<open>DeviceVoltage\<close>
  (an \<^verbatim>\<open>int16_t\<close>).
\<close>

theorem handler_table_invariant:
  "kPropertyCount = length PropertyID_enumerators \<and>
   map unat PropertyID_enumerators = [0..<kPropertyCount] \<and>
   name (kPropertyTable ! unat PropertyID_TemperatureSetpoint) = ''TemperatureSetpoint'' \<and>
   size_of (kPropertyTable ! unat PropertyID_TemperatureSetpoint) = sizeof rep_TemperatureSetpoint \<and>
   sizeof rep_TemperatureSetpoint = 4 \<and>
   name (kPropertyTable ! unat PropertyID_DeviceVoltage) = ''DeviceVoltage'' \<and>
   size_of (kPropertyTable ! unat PropertyID_DeviceVoltage) = sizeof rep_DeviceVoltage \<and>
   sizeof rep_DeviceVoltage = 2"
  by (simp add: kPropertyCount_eq PropertyID_enumerators_def PropertyID_TemperatureSetpoint_def
      PropertyID_DeviceVoltage_def kPropertyTable_def makeHandler_def upt_rec
      PropertyTraits_TemperatureSetpoint_def PropertyTraits_DeviceVoltage_def
      rep_TemperatureSetpoint_def rep_DeviceVoltage_def)

text \<open>
  C5: reading before writing fails.  For an enumerator \<open>pid\<close> whose slot has never been
  successfully written, \<^verbatim>\<open>getRaw\<close> and the typed \<^verbatim>\<open>get\<close> return false and \<^verbatim>\<open>getAsText\<close>
  returns -1, and each leaves its output as it was.  In any store of the program, \<^verbatim>\<open>getRaw\<close>
  and the typed \<^verbatim>\<open>get\<close> also return false, output untouched, when the requested size
  (\<^verbatim>\<open>sizeof(T)\<close> for \<^verbatim>\<open>get<T>\<close>) differs from the slot's recorded length.
\<close>

theorem read_before_write_fails:
  assumes "pid \<in> set PropertyID_enumerators"
  shows "(never_written pid st \<longrightarrow>
            getRaw st pid out len = Defined (False, out) \<and>
            PropertyStore_get rep_TemperatureSetpoint st pid t = Defined (False, t) \<and>
            PropertyStore_get rep_DeviceVoltage st pid p = Defined (False, p) \<and>
            getAsText st pid text n = Defined (- 1, text)) \<and>
         (store_ok st \<and> sz (slots st ! unat pid) \<noteq> len \<longrightarrow>
            getRaw st pid out len = Defined (False, out)) \<and>
         (store_ok st \<and> sz (slots st ! unat pid) \<noteq> sizeof rep_TemperatureSetpoint \<longrightarrow>
            PropertyStore_get rep_TemperatureSetpoint st pid t = Defined (False, t)) \<and>
         (store_ok st \<and> sz (slots st ! unat pid) \<noteq> sizeof rep_DeviceVoltage \<longrightarrow>
            PropertyStore_get rep_DeviceVoltage st pid p = Defined (False, p))"
proof (intro conjI impI)
  assume nw: "never_written pid st"
  from never_written_inv [OF nw assms]
  have ok: "store_ok st" and empty: "\<not> has_value (slots st ! unat pid)"
    by simp_all
  have raw: "getRaw st pid bs k = Defined (False, bs)" for bs k
    using empty by (simp add: getRaw_def slot_at [OF ok assms])
  show "getRaw st pid out len = Defined (False, out)"
    by (rule raw)
  show "PropertyStore_get rep_TemperatureSetpoint st pid t = Defined (False, t)"
    by (simp add: PropertyStore_get_def raw)
  show "PropertyStore_get rep_DeviceVoltage st pid p = Defined (False, p)"
    by (simp add: PropertyStore_get_def raw)
  from handler_serialize [OF assms] obtain h f
    where "handler pid = Defined h" "serialize h = Some f"
    by blast
  then show "getAsText st pid text n = Defined (- 1, text)"
    using empty by (simp add: getAsText_def slot_at [OF ok assms])
next
  assume "store_ok st \<and> sz (slots st ! unat pid) \<noteq> len"
  then show "getRaw st pid out len = Defined (False, out)"
    by (simp add: getRaw_def slot_at [OF _ assms])
next
  assume "store_ok st \<and> sz (slots st ! unat pid) \<noteq> sizeof rep_TemperatureSetpoint"
  then show "PropertyStore_get rep_TemperatureSetpoint st pid t = Defined (False, t)"
    by (simp add: PropertyStore_get_def getRaw_def slot_at [OF _ assms])
next
  assume "store_ok st \<and> sz (slots st ! unat pid) \<noteq> sizeof rep_DeviceVoltage"
  then show "PropertyStore_get rep_DeviceVoltage st pid p = Defined (False, p)"
    by (simp add: PropertyStore_get_def getRaw_def slot_at [OF _ assms])
qed

text \<open>On the initial store, the voltage identifier and the size 2; the length recorded there is 0.\<close>

theorem read_before_write_fails_witness:
  "PropertyID_DeviceVoltage \<in> set PropertyID_enumerators \<and>
   never_written PropertyID_DeviceVoltage PropertyStore_init \<and>
   store_ok PropertyStore_init \<and>
   sz (slots PropertyStore_init ! unat PropertyID_DeviceVoltage) \<noteq> 2 \<and>
   sz (slots PropertyStore_init ! unat PropertyID_DeviceVoltage) \<noteq> sizeof rep_TemperatureSetpoint \<and>
   sz (slots PropertyStore_init ! unat PropertyID_DeviceVoltage) \<noteq> sizeof rep_DeviceVoltage \<and>
   getRaw PropertyStore_init PropertyID_DeviceVoltage [7, 7] 2 = Defined (False, [7, 7]) \<and>
   PropertyStore_get rep_DeviceVoltage PropertyStore_init PropertyID_DeviceVoltage (DeviceVoltage 5)
     = Defined (False, DeviceVoltage 5) \<and>
   getAsText PropertyStore_init PropertyID_DeviceVoltage ''old'' 64 = Defined (- 1, ''old'')"
proof -
  have e: "PropertyID_DeviceVoltage \<in> set PropertyID_enumerators"
    by (simp add: PropertyID_enumerators_def)
  have s: "sz (slots PropertyStore_init ! unat PropertyID_DeviceVoltage) \<noteq> 2"
    "sz (slots PropertyStore_init ! unat PropertyID_DeviceVoltage) \<noteq> sizeof rep_TemperatureSetpoint"
    "sz (slots PropertyStore_init ! unat PropertyID_DeviceVoltage) \<noteq> sizeof rep_DeviceVoltage"
    by (simp_all add: init_slot unat_PropertyID kPropertyCount_eq rep_TemperatureSetpoint_simps
        rep_DeviceVoltage_simps)
  show ?thesis
    using read_before_write_fails [OF e, of PropertyStore_init "[7, 7]" 2 "TemperatureSetpoint 0"
        "DeviceVoltage 5" "''old''" 64] e s never_written_init store_ok_init
    by simp
qed

text \<open>
  C6: for every registered value type, the descriptor's default value satisfies the
  descriptor's own validation predicate: \<^verbatim>\<open>23.0f\<close> in \<open>[-50, 150]\<close> and 1013 in
  \<open>(0, 20000)\<close> for the two \<^verbatim>\<open>PropertyTraits\<close>, \<^verbatim>\<open>37.5f\<close> in \<open>[0, 100]\<close> and \<^verbatim>\<open>80.0f\<close> in
  \<open>[0, 150]\<close> for the two \<^verbatim>\<open>ParameterTraits\<close>.
\<close>

theorem default_v_valid:
  "traits_validate PropertyTraits_TemperatureSetpoint
     (traits_default_v PropertyTraits_TemperatureSetpoint) \<and>
   traits_validate PropertyTraits_DeviceVoltage
     (traits_default_v PropertyTraits_DeviceVoltage) \<and>
   ParameterTraits_TemperatureSetpoint_validate ParameterTraits_TemperatureSetpoint_default_v \<and>
   ParameterTraits_HighTemperatureAlarm_validate ParameterTraits_HighTemperatureAlarm_default_v"
proof (intro conjI)
  show "traits_validate PropertyTraits_TemperatureSetpoint
          (traits_default_v PropertyTraits_TemperatureSetpoint)"
    by (simp add: PropertyTraits_TemperatureSetpoint_def
        PropertyTraits_TemperatureSetpoint_validate_def float_literals float_order_eval)
  show "traits_validate PropertyTraits_DeviceVoltage
          (traits_default_v PropertyTraits_DeviceVoltage)"
    by (simp add: PropertyTraits_DeviceVoltage_def PropertyTraits_DeviceVoltage_validate_def)
  show "ParameterTraits_TemperatureSetpoint_validate ParameterTraits_TemperatureSetpoint_default_v"
    by (simp add: ParameterTraits_TemperatureSetpoint_validate_def
        ParameterTraits_TemperatureSetpoint_default_v_def float_literals float_order_eval)
  show "ParameterTraits_HighTemperatureAlarm_validate ParameterTraits_HighTemperatureAlarm_default_v"
    by (simp add: ParameterTraits_HighTemperatureAlarm_validate_def
        ParameterTraits_HighTemperatureAlarm_default_v_def float_literals float_order_eval)
qed

text \<open>
  C7: the scenario on the temperature-setpoint identifier, from any store of the program
  and for a destination of at least 6 characters.  \<^verbatim>\<open>setFromText(id, "37.5")\<close> returns
  true; \<^verbatim>\<open>getAsText\<close> then returns 5 and the text \<^verbatim>\<open>37.50\<close>; \<^verbatim>\<open>set\<close> of
  \<^verbatim>\<open>TemperatureSetpoint{-1234.0f}\<close> returns false; and \<^verbatim>\<open>getAsText\<close> on the store it leaves
  still returns the text \<^verbatim>\<open>37.50\<close>.
\<close>

theorem scenario_temperature_setpoint:
  assumes "store_ok st" "6 \<le> n"
  shows "\<exists>st1 st2.
           setFromText st PropertyID_TemperatureSetpoint (Some ''37.5'') = Defined (True, st1) \<and>
           getAsText st1 PropertyID_TemperatureSetpoint out n = Defined (5, ''37.50'') \<and>
           PropertyStore_set rep_TemperatureSetpoint st1 PropertyID_TemperatureSetpoint
               (TemperatureSetpoint (float_of_decimal True 12340 (- 1)))
             = Defined (False, st2) \<and>
           getAsText st2 PropertyID_TemperatureSetpoint out n = Defined (5, ''37.50'')"
proof -
  let ?st1 = "st\<lparr>slots := (slots st)[0 := (slots st ! 0)
      \<lparr>buf := to_bytes rep_TemperatureSetpoint (TemperatureSetpoint 0x42160000),
       sz := 4, has_value := True\<rparr>]\<rparr>"
  have s1: "setFromText st PropertyID_TemperatureSetpoint (Some ''37.5'') = Defined (True, ?st1)"
    by (simp add: setFromText_TemperatureSetpoint [OF assms(1) parse_TemperatureSetpoint_37_5]
        TemperatureSetpoint_valid_37_5)
  then have ok1: "store_ok ?st1"
    using assms(1) setFromText_store_ok by blast
  have g1: "getAsText ?st1 PropertyID_TemperatureSetpoint out n = Defined (5, ''37.50'')"
    using assms(2)
    by (simp add: getAsText_after_set_TemperatureSetpoint [OF assms(1)] format_2f_37_5 snprintf_def)
  have s2: "PropertyStore_set rep_TemperatureSetpoint ?st1 PropertyID_TemperatureSetpoint
               (TemperatureSetpoint (float_of_decimal True 12340 (- 1)))
             = Defined (False, ?st1)"
    by (simp only: set_TemperatureSetpoint [OF ok1] float_literals
        TemperatureSetpoint_invalid_m1234 if_False)
  from s1 g1 s2 show ?thesis
    by blast
qed

text \<open>From the initial store, with the 64-character destination of \<^verbatim>\<open>main\<close>.\<close>

theorem scenario_temperature_setpoint_witness:
  "store_ok PropertyStore_init \<and> (6 :: nat) \<le> 64 \<and>
   (\<exists>st1 st2.
      setFromText PropertyStore_init PropertyID_TemperatureSetpoint (Some ''37.5'')
        = Defined (True, st1) \<and>
      getAsText st1 PropertyID_TemperatureSetpoint [] 64 = Defined (5, ''37.50'') \<and>
      PropertyStore_set rep_TemperatureSetpoint st1 PropertyID_TemperatureSetpoint
          (TemperatureSetpoint (float_of_decimal True 12340 (- 1)))
        = Defined (False, st2) \<and>
      getAsText st2 PropertyID_TemperatureSetpoint [] 64 = Defined (5, ''37.50''))"
proof -
  have n: "(6 :: nat) \<le> 64"
    by simp
  from scenario_temperature_setpoint [OF store_ok_init n, of "[]"] store_ok_init n
  show ?thesis
    by blast
qed

text \<open>
  C8, at the text \<^verbatim>\<open>"70000"\<close>.  \<^verbatim>\<open>strtol\<close> reads 70000, the cast to \<^verbatim>\<open>int16_t\<close> keeps
  \<open>70000 - 65536 = 4464\<close>, and \<^verbatim>\<open>parse\<close> returns true with that value; it lies in
  \<open>(0, 20000)\<close>, so \<^verbatim>\<open>setFromText\<close> on the voltage identifier returns true and \<^verbatim>\<open>getAsText\<close>
  then gives \<^verbatim>\<open>4464\<close>: the scalar stored is not the number the text denotes.
\<close>

theorem DeviceVoltage_text_out_of_range:
  "strtol ''70000'' = (70000, 5) \<and>
   PropertyTraits_DeviceVoltage_parse (Some ''70000'') (DeviceVoltage 0) = (True, DeviceVoltage 4464) \<and>
   sint (DeviceVoltage_value (DeviceVoltage 4464)) = 4464 \<and>
   (\<exists>st'. setFromText PropertyStore_init PropertyID_DeviceVoltage (Some ''70000'')
             = Defined (True, st') \<and>
          getAsText st' PropertyID_DeviceVoltage [] 64 = Defined (4, ''4464''))"
proof -
  let ?st = "PropertyStore_init\<lparr>slots := (slots PropertyStore_init)[1 := (slots PropertyStore_init ! 1)
      \<lparr>buf := to_bytes rep_DeviceVoltage (DeviceVoltage 4464) @ drop 2 (buf (slots PropertyStore_init ! 1)),
       sz := 2, has_value := True\<rparr>]\<rparr>"
  have s: "setFromText PropertyStore_init PropertyID_DeviceVoltage (Some ''70000'')
      = Defined (True, ?st)"
    by (simp only: setFromText_DeviceVoltage [OF store_ok_init parse_DeviceVoltage_70000]
        DeviceVoltage_valid_4464 simp_thms if_True)
  have g: "getAsText ?st PropertyID_DeviceVoltage [] 64 = Defined (4, ''4464'')"
    by (simp only: getAsText_after_set_DeviceVoltage [OF store_ok_init])
       (simp add: format_d_4464 snprintf_def)
  from s g have "\<exists>st'. setFromText PropertyStore_init PropertyID_DeviceVoltage (Some ''70000'')
             = Defined (True, st') \<and>
          getAsText st' PropertyID_DeviceVoltage [] 64 = Defined (4, ''4464'')"
    by blast
  then show ?thesis
    by (simp add: strtol_70000 parse_DeviceVoltage_70000)
qed

text \<open>
  C9, as the code has it: \<^verbatim>\<open>handler\<close> indexes the C array \<^verbatim>\<open>kPropertyTable\<close> with the
  identifier's value and checks nothing.  For the two enumerators it returns the entry at
  their ordinal; for every other value of \<^verbatim>\<open>PropertyID\<close> the read is outside the table and
  undefined, with no detection in any build.
\<close>

theorem handler_lookup:
  "(handler pid = Undefined \<longleftrightarrow> pid \<notin> set PropertyID_enumerators) \<and>
   (pid \<in> set PropertyID_enumerators \<longrightarrow> handler pid = Defined (kPropertyTable ! unat pid))"
proof -
  have in_range: "pid \<in> set PropertyID_enumerators \<longleftrightarrow> unat pid < length kPropertyTable"
    using enumerator_iff [of pid] by (simp add: kPropertyCount_def)
  have "handler pid = Undefined \<longleftrightarrow> \<not> unat pid < length kPropertyTable"
    by (simp add: handler_def array_at_def)
  moreover have "handler pid = Defined (kPropertyTable ! unat pid)"
    if "unat pid < length kPropertyTable"
    using that by (simp add: handler_def array_at_def)
  ultimately show ?thesis
    using in_range by simp
qed

text \<open>The lookup at the enumerator \<^verbatim>\<open>PropertyID::DeviceVoltage\<close>.\<close>

theorem handler_lookup_witness:
  "PropertyID_DeviceVoltage \<in> set PropertyID_enumerators \<and>
   handler PropertyID_DeviceVoltage = Defined (kPropertyTable ! 1) \<and>
   handler PropertyID_DeviceVoltage \<noteq> Undefined"
  using handler_lookup [of PropertyID_DeviceVoltage]
  by (simp add: PropertyID_enumerators_def PropertyID_DeviceVoltage_def)

text \<open>
  The lookup at \<^verbatim>\<open>static_cast<PropertyID>(2)\<close>, one past the end of the table: the read
  \<^verbatim>\<open>kPropertyTable[2]\<close> is made unchecked.
\<close>

theorem handler_out_of_range_counterexample:
  "kPropertyCount \<le> unat (2 :: PropertyID) \<and> handler 2 = Undefined"
  by (simp add: handler_def array_at_def kPropertyCount_def kPropertyTable_def)

text \<open>
  C10: each of the four \<^verbatim>\<open>parse\<close> functions returns false on a null text and leaves its
  \<^verbatim>\<open>out\<close> object as it was; so \<^verbatim>\<open>setFromText\<close> with a null pointer returns false, for
  either enumerator, and the store is unchanged.
\<close>

theorem null_text_rejected:
  "PropertyTraits_TemperatureSetpoint_parse None t = (False, t) \<and>
   PropertyTraits_DeviceVoltage_parse None p = (False, p) \<and>
   ParameterTraits_TemperatureSetpoint_parse None t = (False, t) \<and>
   ParameterTraits_HighTemperatureAlarm_parse None a = (False, a) \<and>
   (pid \<in> set PropertyID_enumerators \<longrightarrow> setFromText st pid None = Defined (False, st))"
proof -
  have "setFromText st pid None = Defined (False, st)" if "pid \<in> set PropertyID_enumerators"
    using that
  proof (cases rule: enumerator_cases)
    case 1
    then show ?thesis
      by (simp add: setFromText_def handler_TemperatureSetpoint makeHandler_def
          PropertyTraits_TemperatureSetpoint_def parse_null)
  next
    case 2
    then show ?thesis
      by (simp add: setFromText_def handler_DeviceVoltage makeHandler_def
          PropertyTraits_DeviceVoltage_def parse_null)
  qed
  then show ?thesis
    by (simp add: parse_null)
qed

text \<open>On the initial store and the voltage identifier.\<close>

theorem null_text_rejected_witness:
  "PropertyID_DeviceVoltage \<in> set PropertyID_enumerators \<and>
   setFromText PropertyStore_init PropertyID_DeviceVoltage None = Defined (False, PropertyStore_init) \<and>
   PropertyTraits_DeviceVoltage_parse None (DeviceVoltage 1013) = (False, DeviceVoltage 1013)"
  using null_text_rejected [of "TemperatureSetpoint 0" "DeviceVoltage 1013" "HighTemperatureAlarm 0"
      PropertyID_DeviceVoltage PropertyStore_init]
  by (simp add: PropertyID_enumerators_def)

end
